theory Spec2Isabelle
  imports Main
begin

section \<open>The vCenter inventory as the module sees it\<close>

text \<open>
  The module \<^verbatim>\<open>plugins/modules/vcenter_folder.py\<close> works on managed objects of a
  vCenter inventory. A managed object is a reference (its managed object id, a string);
  its properties are fetched from the server at every attribute access. The model keeps
  the references as strings and the properties in a store.
\<close>

type_synonym moid = string

type_synonym task = string

datatype vimtype = Folder | Datacenter | OtherType

record managed_object =
  name :: string
  vimtype :: vimtype
  childType :: "string list"
  parent :: "moid option"

text \<open>
  The exceptions the module meets. Each carries the text that the source renders with
  \<^verbatim>\<open>to_native\<close>.
\<close>

datatype exn =
    ManagedObjectNotFound string
  | AttributeError string
  | DuplicateName string
  | InvalidName string
  | ConcurrentAccess string
  | InvalidState string
  | OtherException string

fun to_native :: "exn \<Rightarrow> string" where
  "to_native (ManagedObjectNotFound s) = s"
| "to_native (AttributeError s) = s"
| "to_native (DuplicateName s) = s"
| "to_native (InvalidName s) = s"
| "to_native (ConcurrentAccess s) = s"
| "to_native (InvalidState s) = s"
| "to_native (OtherException s) = s"

text \<open>
  The collaborators of the module, none of them under \<^verbatim>\<open>src/\<close>: the connected
  service (\<^verbatim>\<open>self.content\<close>, \<^verbatim>\<open>self.si\<close>), the helpers \<^verbatim>\<open>get_all_objs\<close>,
  \<^verbatim>\<open>wait_for_task\<close> and \<^verbatim>\<open>get_folder_path\<close> of \<^verbatim>\<open>module_utils.vmware\<close>, and the methods
  \<^verbatim>\<open>CreateFolder\<close>, \<^verbatim>\<open>Destroy\<close> and \<^verbatim>\<open>UnregisterAndDestroy\<close> of a folder. They are
  parameters of the model: every theorem holds for whatever they answer.
  \<^item> \<open>objects\<close> is the property store; a reference that is not in it raises
    \<^verbatim>\<open>ManagedObjectNotFound\<close> when a property is read;
  \<^item> \<open>get_all_objs types anchor\<close> lists the objects of the given types under the anchor
    (\<open>None\<close> when the caller gives no folder), in the order the module iterates them;
  \<^item> a method answers with a value (\<open>Inr\<close>) or raises (\<open>Inl\<close>).
\<close>

record client =
  objects :: "moid \<Rightarrow> managed_object option"
  get_all_objs :: "vimtype list \<Rightarrow> moid option \<Rightarrow> moid list"
  get_folder_path :: "moid \<Rightarrow> string"
  CreateFolder :: "moid \<Rightarrow> string \<Rightarrow> exn + moid"
  Destroy :: "moid \<Rightarrow> exn + task"
  UnregisterAndDestroy :: "moid \<Rightarrow> exn + task"
  wait_for_task :: "task \<Rightarrow> exn + bool \<times> string"

datatype FolderCategory = vm | host | datastore | network

datatype desired_state = present | absent

text \<open>
  The module's parameters (\<^verbatim>\<open>argument_spec\<close> in \<^verbatim>\<open>main\<close>): \<^verbatim>\<open>state\<close> and
  \<^verbatim>\<open>folder_type\<close> are restricted to their choices by the argument specification, the
  two parent parameters are optional strings.
\<close>

record module_params =
  p_state :: desired_state
  p_datacenter :: string
  p_folder_type :: FolderCategory
  p_folder_name :: string
  p_parent_folder :: "string option"
  p_parent_folder_moid :: "string option"

text \<open>
  \<^verbatim>\<open>VmwareFolderManager\<close> after \<^verbatim>\<open>__init__\<close>: the service, the parameters, the check mode
  flag of the module and the dictionary \<^verbatim>\<open>datacenter_folder_type\<close> from a category to
  the datacenter's root folder of that category.
\<close>

record VmwareFolderManager =
  content :: client
  params :: module_params
  check_mode :: bool
  datacenter_folder_type :: "FolderCategory \<Rightarrow> moid"

section \<open>Reading properties\<close>

definition fetch :: "client \<Rightarrow> moid \<Rightarrow> exn + managed_object" where
  "fetch c m = (case objects c m of None \<Rightarrow> Inl (ManagedObjectNotFound m) | Some obj \<Rightarrow> Inr obj)"

definition attr_name :: "client \<Rightarrow> moid \<Rightarrow> exn + string" where
  "attr_name c m = (case fetch c m of Inl e \<Rightarrow> Inl e | Inr obj \<Rightarrow> Inr (name obj))"

definition attr_childType :: "client \<Rightarrow> moid \<Rightarrow> exn + string list" where
  "attr_childType c m = (case fetch c m of Inl e \<Rightarrow> Inl e | Inr obj \<Rightarrow> Inr (childType obj))"

definition attr_parent :: "client \<Rightarrow> moid \<Rightarrow> exn + moid option" where
  "attr_parent c m = (case fetch c m of Inl e \<Rightarrow> Inl e | Inr obj \<Rightarrow> Inr (parent obj))"

text \<open>
  \<^verbatim>\<open>folder.parent.parent.name\<close>: an attribute of Python's \<^verbatim>\<open>None\<close> raises
  \<^verbatim>\<open>AttributeError\<close>.
\<close>

definition parent_parent_name :: "client \<Rightarrow> moid \<Rightarrow> exn + string" where
  "parent_parent_name c folder =
     (case attr_parent c folder of
        Inl e \<Rightarrow> Inl e
      | Inr None \<Rightarrow> Inl (AttributeError ''parent'')
      | Inr (Some p) \<Rightarrow>
          (case attr_parent c p of
             Inl e \<Rightarrow> Inl e
           | Inr None \<Rightarrow> Inl (AttributeError ''name'')
           | Inr (Some g) \<Rightarrow> attr_name c g))"

text \<open>Python's \<^verbatim>\<open>a and b\<close> on conditions that may raise: \<open>b\<close> is read only when \<open>a\<close> holds.\<close>

definition py_and :: "exn + bool \<Rightarrow> exn + bool \<Rightarrow> exn + bool" where
  "py_and a b = (case a of Inl e \<Rightarrow> Inl e | Inr False \<Rightarrow> Inr False | Inr True \<Rightarrow> b)"

definition eq_exn :: "exn + 'a \<Rightarrow> exn + 'a \<Rightarrow> exn + bool" where
  "eq_exn a b =
     (case a of Inl e \<Rightarrow> Inl e
      | Inr x \<Rightarrow> (case b of Inl e \<Rightarrow> Inl e | Inr y \<Rightarrow> Inr (x = y)))"

section \<open>\<^verbatim>\<open>get_folder\<close>\<close>

text \<open>
  The condition of the loop body of \<^verbatim>\<open>get_folder\<close> (lines 401 to 409): with a parent
  folder, the name and the child type signature; with none, the name of the object two
  parents up as well.
\<close>

definition folder_matches ::
  "VmwareFolderManager \<Rightarrow> string \<Rightarrow> string \<Rightarrow> FolderCategory \<Rightarrow> moid option \<Rightarrow> moid \<Rightarrow> exn + bool"
where
  "folder_matches self datacenter_name folder_name folder_type parent_folder folder =
     (case parent_folder of
        Some _ \<Rightarrow>
          py_and (eq_exn (attr_name (content self) folder) (Inr folder_name))
            (eq_exn (attr_childType (content self) (datacenter_folder_type self folder_type))
               (attr_childType (content self) folder))
      | None \<Rightarrow>
          py_and (eq_exn (attr_name (content self) folder) (Inr folder_name))
            (py_and
               (eq_exn (attr_childType (content self) (datacenter_folder_type self folder_type))
                  (attr_childType (content self) folder))
               (eq_exn (parent_parent_name (content self) folder) (Inr datacenter_name))))"

fun get_folder_loop ::
  "VmwareFolderManager \<Rightarrow> string \<Rightarrow> string \<Rightarrow> FolderCategory \<Rightarrow> moid option \<Rightarrow> moid list
     \<Rightarrow> exn + moid option"
where
  "get_folder_loop self datacenter_name folder_name folder_type parent_folder [] = Inr None"
| "get_folder_loop self datacenter_name folder_name folder_type parent_folder (folder # folder_objs) =
     (case folder_matches self datacenter_name folder_name folder_type parent_folder folder of
        Inl e \<Rightarrow> Inl e
      | Inr True \<Rightarrow> Inr (Some folder)
      | Inr False \<Rightarrow>
          get_folder_loop self datacenter_name folder_name folder_type parent_folder folder_objs)"

definition get_folder ::
  "VmwareFolderManager \<Rightarrow> string \<Rightarrow> string \<Rightarrow> FolderCategory \<Rightarrow> moid option \<Rightarrow> exn + moid option"
where
  "get_folder self datacenter_name folder_name folder_type parent_folder =
     get_folder_loop self datacenter_name folder_name folder_type parent_folder
       (get_all_objs (content self) [Folder] parent_folder)"

section \<open>Python values the module computes with\<close>

text \<open>
  A parameter is used as a condition (\<^verbatim>\<open>if parent_folder:\<close>): \<^verbatim>\<open>None\<close> and the empty
  string are false. \<open>py_str\<close> gives the string of a parameter that is true.
\<close>

fun py_str :: "string option \<Rightarrow> string option" where
  "py_str None = None"
| "py_str (Some s) = (if s = [] then None else Some s)"

definition truthy :: "string option \<Rightarrow> bool" where
  "truthy s = (py_str s \<noteq> None)"

text \<open>\<^verbatim>\<open>"%s" % x\<close> for a value that is a string or \<^verbatim>\<open>None\<close>.\<close>

fun fmt :: "string option \<Rightarrow> string" where
  "fmt None = ''None''"
| "fmt (Some s) = s"

fun fmt_type :: "FolderCategory \<Rightarrow> string" where
  "fmt_type vm = ''vm''"
| "fmt_type host = ''host''"
| "fmt_type datastore = ''datastore''"
| "fmt_type network = ''network''"

text \<open>\<^verbatim>\<open>s.strip('/')\<close> and \<^verbatim>\<open>s.split('/')\<close>, for any separator character.\<close>

definition strip :: "char \<Rightarrow> string \<Rightarrow> string" where
  "strip c s = rev (dropWhile (\<lambda>x. x = c) (rev (dropWhile (\<lambda>x. x = c) s)))"

fun split :: "char \<Rightarrow> string \<Rightarrow> string list" where
  "split c [] = [[]]"
| "split c (x # xs) =
     (if x = c then [] # split c xs
      else (case split c xs of [] \<Rightarrow> [[x]] | w # ws \<Rightarrow> (x # w) # ws))"

text \<open>
  The dictionary \<^verbatim>\<open>results\<close>: the keys \<^verbatim>\<open>changed\<close> and \<^verbatim>\<open>result\<close> are always there,
  \<^verbatim>\<open>msg\<close> is added by some branches. The value under \<^verbatim>\<open>result\<close> starts as a dictionary
  (with optional keys \<^verbatim>\<open>path\<close> and \<^verbatim>\<open>msg\<close>) and is replaced by a string in some
  branches.
\<close>

datatype result_value =
    result_dict (result_path: "string option") (result_msg: "string option")
  | result_str string

record results =
  changed :: bool
  result :: result_value
  msg :: "string option"

definition results0 :: results where
  "results0 = \<lparr>changed = False, result = result_dict None None, msg = None\<rparr>"

text \<open>
  \<^verbatim>\<open>results['result']['path'] = v\<close> and \<^verbatim>\<open>results['result']['msg'] = v\<close>. The source
  assigns into \<^verbatim>\<open>results['result']\<close> only while it is still a dictionary.
\<close>

fun set_result_path :: "string \<Rightarrow> results \<Rightarrow> results" where
  "set_result_path v r =
     (case result r of
        result_dict p m \<Rightarrow> r\<lparr>result := result_dict (Some v) m\<rparr>
      | result_str s \<Rightarrow> r)"

fun set_result_msg :: "string \<Rightarrow> results \<Rightarrow> results" where
  "set_result_msg v r =
     (case result r of
        result_dict p m \<Rightarrow> r\<lparr>result := result_dict p (Some v)\<rparr>
      | result_str s \<Rightarrow> r)"

text \<open>
  How a run of the module ends: \<^verbatim>\<open>exit_json\<close> with the results, \<^verbatim>\<open>fail_json\<close> with a
  message, or an exception that nothing catches. The calls that reach the server are
  logged in the order they are made.
\<close>

datatype outcome = exit_json results | fail_json string | uncaught exn

datatype call =
    CreateFolder_call moid string
  | Destroy_call moid
  | UnregisterAndDestroy_call moid
  | wait_for_task_call task

section \<open>\<^verbatim>\<open>ensure\<close>\<close>

text \<open>
  The loop over the parts of a parent path (lines 232 to 239 and 330 to 337).
  \<^verbatim>\<open>fail_json\<close> and an uncaught exception leave the function at once.
\<close>

fun walk_parts :: "VmwareFolderManager \<Rightarrow> string list \<Rightarrow> moid option \<Rightarrow> outcome + moid option" where
  "walk_parts self [] p_folder_obj = Inr p_folder_obj"
| "walk_parts self (part # parent_folder_parts) p_folder_obj =
     (case get_folder self (p_datacenter (params self)) part (p_folder_type (params self))
             p_folder_obj of
        Inl e \<Rightarrow> Inl (uncaught e)
      | Inr None \<Rightarrow> Inl (fail_json (''Could not find folder '' @ part))
      | Inr (Some part_folder_obj) \<Rightarrow> walk_parts self parent_folder_parts (Some part_folder_obj))"

text \<open>
  Reading the name of the parent given by its id (lines 216 to 219 and 318 to 321): the
  handler turns \<^verbatim>\<open>ManagedObjectNotFound\<close> into \<^verbatim>\<open>fail_json\<close>, any other exception
  is not caught.
\<close>

fun moid_exception :: "moid \<Rightarrow> exn \<Rightarrow> outcome" where
  "moid_exception parent_folder_moid (ManagedObjectNotFound s) =
     fail_json (''Could not find folder using moid '' @ parent_folder_moid @ '' : '' @ s)"
| "moid_exception parent_folder_moid e = uncaught e"

text \<open>
  \<^verbatim>\<open>state == 'present'\<close>, lines 212 to 274: the lookups. The value is the outcome when
  the module stops here, or the local variables \<^verbatim>\<open>parent_folder\<close> and \<^verbatim>\<open>p_folder_obj\<close>
  with which the creation goes on.
\<close>

definition present_lookup :: "VmwareFolderManager \<Rightarrow> outcome + (string option \<times> moid option)" where
  "present_lookup self =
     (let datacenter_name = p_datacenter (params self);
          folder_type = p_folder_type (params self);
          folder_name = p_folder_name (params self);
          parent_folder = p_parent_folder (params self);
          parent_folder_moid = p_parent_folder_moid (params self);
          results = results0
      in
      case py_str parent_folder_moid of
        Some moid \<Rightarrow>
          (case attr_name (content self) moid of
             Inl e \<Rightarrow> Inl (moid_exception moid e)
           | Inr p_name \<Rightarrow>
               (case get_folder self datacenter_name folder_name folder_type (Some moid) of
                  Inl e \<Rightarrow> Inl (uncaught e)
                | Inr (Some child_folder_obj) \<Rightarrow>
                    Inl (exit_json (results\<lparr>result := result_str
                      (''Folder '' @ folder_name @ '' already exists under parent folder '' @ p_name)\<rparr>))
                | Inr None \<Rightarrow> Inr (Some p_name, Some moid)))
      | None \<Rightarrow>
          (case py_str parent_folder of
             Some pf \<Rightarrow>
               (if CHR ''/'' \<in> set pf then
                  (case walk_parts self (split CHR ''/'' (strip CHR ''/'' pf)) None of
                     Inl out \<Rightarrow> Inl out
                   | Inr p_folder_obj \<Rightarrow>
                       (case get_folder self datacenter_name folder_name folder_type p_folder_obj of
                          Inl e \<Rightarrow> Inl (uncaught e)
                        | Inr (Some child_folder_obj) \<Rightarrow>
                            Inl (exit_json (results\<lparr>result := result_str
                              (''Folder '' @ folder_name @ '' already exists under parent folder '' @ pf)\<rparr>))
                        | Inr None \<Rightarrow> Inr (Some pf, p_folder_obj)))
                else
                  (case get_folder self datacenter_name pf folder_type None of
                     Inl e \<Rightarrow> Inl (uncaught e)
                   | Inr None \<Rightarrow> Inl (fail_json (''Parent folder '' @ pf @ '' does not exist''))
                   | Inr (Some p_folder_obj) \<Rightarrow>
                       (case get_folder self datacenter_name folder_name folder_type (Some p_folder_obj) of
                          Inl e \<Rightarrow> Inl (uncaught e)
                        | Inr (Some child_folder_obj) \<Rightarrow>
                            Inl (exit_json
                              ((set_result_path (get_folder_path (content self) child_folder_obj) results)
                                 \<lparr>result := result_str
                                    (''Folder '' @ folder_name @ '' already exists under parent folder '' @ pf)\<rparr>))
                        | Inr None \<Rightarrow> Inr (Some pf, Some p_folder_obj))))
           | None \<Rightarrow>
               (case get_folder self datacenter_name folder_name folder_type None of
                  Inl e \<Rightarrow> Inl (uncaught e)
                | Inr (Some folder_obj) \<Rightarrow>
                    Inl (exit_json
                      (set_result_msg (''Folder '' @ folder_name @ '' already exists'')
                         (set_result_path (get_folder_path (content self) folder_obj) results)))
                | Inr None \<Rightarrow> Inr (parent_folder, None))))"

text \<open>
  The body of the \<^verbatim>\<open>try\<close> of lines 277 to 297: the new results, or the exception that
  leaves the body, and the calls made. In the first branch the source reads
  \<^verbatim>\<open>p_folder_obj.name\<close> again when the parent was given by its id.
\<close>

definition try_create ::
  "VmwareFolderManager \<Rightarrow> string option \<Rightarrow> moid option \<Rightarrow> (exn + results) \<times> call list"
where
  "try_create self parent_folder p_folder_obj =
     (let folder_type = p_folder_type (params self);
          folder_name = p_folder_name (params self);
          parent_folder_moid = p_parent_folder_moid (params self);
          results = results0
      in
      if (truthy parent_folder \<or> truthy parent_folder_moid) \<and> p_folder_obj \<noteq> None then
        (case p_folder_obj of
           None \<Rightarrow> (Inr results, [])
         | Some p \<Rightarrow>
             (case (if truthy parent_folder_moid
                    then (case attr_name (content self) p of Inl e \<Rightarrow> Inl e | Inr n \<Rightarrow> Inr (Some n))
                    else Inr parent_folder) of
                Inl e \<Rightarrow> (Inl e, [])
              | Inr parent_folder' \<Rightarrow>
                  (if check_mode self then
                     (Inr (results\<lparr>msg := Some (''Folder '' @ [CHR 0x27] @ folder_name @ [CHR 0x27]
                              @ '' of type '' @ [CHR 0x27] @ fmt_type folder_type @ [CHR 0x27]
                              @ '' under '' @ [CHR 0x27] @ fmt parent_folder' @ [CHR 0x27]
                              @ '' will be created.''),
                            changed := True\<rparr>), [])
                   else
                     (case CreateFolder (content self) p folder_name of
                        Inl e \<Rightarrow> (Inl e, [CreateFolder_call p folder_name])
                      | Inr new_folder \<Rightarrow>
                          (Inr ((set_result_msg
                                  (''Folder '' @ [CHR 0x27] @ folder_name @ [CHR 0x27]
                                   @ '' of type '' @ [CHR 0x27] @ fmt_type folder_type @ [CHR 0x27]
                                   @ '' under '' @ [CHR 0x27] @ fmt parent_folder' @ [CHR 0x27]
                                   @ '' created successfully.'')
                                  (set_result_path (get_folder_path (content self) new_folder) results))
                                \<lparr>changed := True\<rparr>),
                           [CreateFolder_call p folder_name])))))
      else if \<not> truthy parent_folder \<and> p_folder_obj = None then
        (if check_mode self then
           (Inr (results\<lparr>msg := Some (''Folder '' @ [CHR 0x27] @ folder_name @ [CHR 0x27]
                    @ '' of type '' @ [CHR 0x27] @ fmt_type folder_type @ [CHR 0x27]
                    @ '' will be created.''),
                  changed := True\<rparr>), [])
         else
           (case CreateFolder (content self) (datacenter_folder_type self folder_type) folder_name of
              Inl e \<Rightarrow> (Inl e, [CreateFolder_call (datacenter_folder_type self folder_type) folder_name])
            | Inr new_folder \<Rightarrow>
                (Inr ((set_result_path (get_folder_path (content self) new_folder)
                        (set_result_msg
                          (''Folder '' @ [CHR 0x27] @ folder_name @ [CHR 0x27]
                           @ '' of type '' @ [CHR 0x27] @ fmt_type folder_type @ [CHR 0x27]
                           @ '' created successfully.'')
                          results))
                      \<lparr>changed := True\<rparr>),
                 [CreateFolder_call (datacenter_folder_type self folder_type) folder_name])))
      else (Inr results, []))"

text \<open>
  The handlers of lines 298 to 311, in their order: \<^verbatim>\<open>DuplicateName\<close> is accepted and
  the run goes on to \<^verbatim>\<open>exit_json\<close>, \<^verbatim>\<open>InvalidName\<close> and every other exception end in
  \<^verbatim>\<open>fail_json\<close>. An exception leaves the body of the \<^verbatim>\<open>try\<close> before any assignment to
  \<^verbatim>\<open>results\<close>, so the first handler starts from the initial dictionary.
\<close>

fun create_exception :: "exn \<Rightarrow> outcome" where
  "create_exception (DuplicateName m) =
     exit_json (results0\<lparr>changed := False,
       msg := Some (''Failed to create folder as another object has same name''
                    @ '' in the same target folder : '' @ m)\<rparr>)"
| "create_exception (InvalidName m) =
     fail_json (''Failed to create folder as folder name is not a valid ''
                @ ''entity name : '' @ m)"
| "create_exception general_exc =
     fail_json (''Failed to create folder due to generic''
                @ '' exception : '' @ to_native general_exc @ '' '')"

text \<open>Lines 276 to 312: the \<^verbatim>\<open>try\<close> with its handlers, then \<^verbatim>\<open>exit_json\<close>.\<close>

definition create_folder ::
  "VmwareFolderManager \<Rightarrow> string option \<Rightarrow> moid option \<Rightarrow> outcome \<times> call list"
where
  "create_folder self parent_folder p_folder_obj =
     (case try_create self parent_folder p_folder_obj of
        (Inr results, calls) \<Rightarrow> (exit_json results, calls)
      | (Inl e, calls) \<Rightarrow> (create_exception e, calls))"

text \<open>
  \<^verbatim>\<open>state == 'absent'\<close>, lines 314 to 358: the lookups. The value is the outcome when the
  module stops here, or the local variables \<^verbatim>\<open>parent_folder\<close> and \<^verbatim>\<open>folder_obj\<close>.
\<close>

definition absent_lookup :: "VmwareFolderManager \<Rightarrow> outcome + (string option \<times> moid option)" where
  "absent_lookup self =
     (let datacenter_name = p_datacenter (params self);
          folder_type = p_folder_type (params self);
          folder_name = p_folder_name (params self);
          parent_folder = p_parent_folder (params self);
          parent_folder_moid = p_parent_folder_moid (params self)
      in
      case py_str parent_folder_moid of
        Some moid \<Rightarrow>
          (case attr_name (content self) moid of
             Inl e \<Rightarrow> Inl (moid_exception moid e)
           | Inr p_name \<Rightarrow>
               (case get_folder self datacenter_name folder_name folder_type (Some moid) of
                  Inl e \<Rightarrow> Inl (uncaught e)
                | Inr folder_obj \<Rightarrow> Inr (Some p_name, folder_obj)))
      | None \<Rightarrow>
          (case py_str parent_folder of
             Some pf \<Rightarrow>
               (if CHR ''/'' \<in> set pf then
                  (case walk_parts self (split CHR ''/'' (strip CHR ''/'' pf)) None of
                     Inl out \<Rightarrow> Inl out
                   | Inr p_folder_obj \<Rightarrow>
                       (case get_folder self datacenter_name folder_name folder_type p_folder_obj of
                          Inl e \<Rightarrow> Inl (uncaught e)
                        | Inr folder_obj \<Rightarrow> Inr (Some pf, folder_obj)))
                else
                  (case get_folder self datacenter_name pf folder_type None of
                     Inl e \<Rightarrow> Inl (uncaught e)
                   | Inr None \<Rightarrow> Inl (fail_json (''Parent folder '' @ pf @ '' does not exist''))
                   | Inr (Some p_folder_obj) \<Rightarrow>
                       (case get_folder self datacenter_name folder_name folder_type (Some p_folder_obj) of
                          Inl e \<Rightarrow> Inl (uncaught e)
                        | Inr folder_obj \<Rightarrow> Inr (Some pf, folder_obj))))
           | None \<Rightarrow>
               (case get_folder self datacenter_name folder_name folder_type None of
                  Inl e \<Rightarrow> Inl (uncaught e)
                | Inr folder_obj \<Rightarrow> Inr (parent_folder, folder_obj))))"

text \<open>
  Lines 367 to 371 and 377 to 381: the task of the deletion and the wait for it.
\<close>

definition destroy_and_wait ::
  "VmwareFolderManager \<Rightarrow> moid \<Rightarrow> (exn + results) \<times> call list"
where
  "destroy_and_wait self folder_obj =
     (case (if p_folder_type (params self) = vm
            then (UnregisterAndDestroy (content self) folder_obj, UnregisterAndDestroy_call folder_obj)
            else (Destroy (content self) folder_obj, Destroy_call folder_obj)) of
        (Inl e, c) \<Rightarrow> (Inl e, [c])
      | (Inr t, c) \<Rightarrow>
          (case wait_for_task (content self) t of
             Inl e \<Rightarrow> (Inl e, [c, wait_for_task_call t])
           | Inr (ch, m) \<Rightarrow>
               (Inr (results0\<lparr>changed := ch, msg := Some m\<rparr>), [c, wait_for_task_call t])))"

text \<open>The body of the \<^verbatim>\<open>try\<close> of lines 360 to 381.\<close>

definition try_remove ::
  "VmwareFolderManager \<Rightarrow> string option \<Rightarrow> moid \<Rightarrow> (exn + results) \<times> call list"
where
  "try_remove self parent_folder folder_obj =
     (let folder_type = p_folder_type (params self);
          folder_name = p_folder_name (params self);
          results = results0
      in
      if truthy parent_folder then
        (if check_mode self then
           (Inr (results\<lparr>changed := True,
                  msg := Some (''Folder '' @ [CHR 0x27] @ folder_name @ [CHR 0x27]
                    @ '' of type '' @ [CHR 0x27] @ fmt_type folder_type @ [CHR 0x27]
                    @ '' under '' @ [CHR 0x27] @ fmt parent_folder @ [CHR 0x27]
                    @ '' will be removed.'')\<rparr>), [])
         else destroy_and_wait self folder_obj)
      else
        (if check_mode self then
           (Inr (results\<lparr>changed := True,
                  msg := Some (''Folder '' @ [CHR 0x27] @ folder_name @ [CHR 0x27]
                    @ '' of type '' @ [CHR 0x27] @ fmt_type folder_type @ [CHR 0x27]
                    @ '' will be removed.'')\<rparr>), [])
         else destroy_and_wait self folder_obj))"

text \<open>The handlers of lines 382 to 390, in their order: each ends in \<^verbatim>\<open>fail_json\<close>.\<close>

fun remove_exception :: "exn \<Rightarrow> outcome" where
  "remove_exception (ConcurrentAccess m) =
     fail_json (''Failed to remove folder as another client''
                @ '' modified folder before this operation : '' @ m)"
| "remove_exception (InvalidState m) =
     fail_json (''Failed to remove folder as folder is in''
                @ '' invalid state : '' @ m)"
| "remove_exception gen_exec =
     fail_json (''Failed to remove folder due to generic''
                @ '' exception '' @ to_native gen_exec @ '' '')"

text \<open>Lines 359 to 391: the deletion with its handlers, then \<^verbatim>\<open>exit_json\<close>.\<close>

definition remove_folder ::
  "VmwareFolderManager \<Rightarrow> string option \<Rightarrow> moid option \<Rightarrow> outcome \<times> call list"
where
  "remove_folder self parent_folder folder_obj =
     (case folder_obj of
        None \<Rightarrow> (exit_json results0, [])
      | Some f \<Rightarrow>
          (case try_remove self parent_folder f of
             (Inr results, calls) \<Rightarrow> (exit_json results, calls)
           | (Inl e, calls) \<Rightarrow> (remove_exception e, calls)))"

text \<open>\<^verbatim>\<open>ensure\<close>: how the run ends, and the calls that reached the server.\<close>

definition ensure :: "VmwareFolderManager \<Rightarrow> outcome \<times> call list" where
  "ensure self =
     (case p_state (params self) of
        present \<Rightarrow>
          (case present_lookup self of
             Inl out \<Rightarrow> (out, [])
           | Inr (parent_folder, p_folder_obj) \<Rightarrow> create_folder self parent_folder p_folder_obj)
      | absent \<Rightarrow>
          (case absent_lookup self of
             Inl out \<Rightarrow> (out, [])
           | Inr (parent_folder, folder_obj) \<Rightarrow> remove_folder self parent_folder folder_obj))"

section \<open>The spec's reading of the lookups\<close>

text \<open>
  The spec's path walk (section 4.1): resolve each path segment in order, as a lookup
  of that one name, using the previously resolved folder as the next segment's anchor; a
  segment that fails to resolve is fatal. \<open>resolve_segment\<close> is the lookup of one
  segment, \<open>sequential_resolution\<close> chains the lookups from left to right and keeps the
  first failure.
\<close>

definition resolve_segment :: "VmwareFolderManager \<Rightarrow> moid option \<Rightarrow> string \<Rightarrow> outcome + moid option" where
  "resolve_segment self anchor segment =
     (case get_folder self (p_datacenter (params self)) segment (p_folder_type (params self)) anchor of
        Inl e \<Rightarrow> Inl (uncaught e)
      | Inr None \<Rightarrow> Inl (fail_json (''Could not find folder '' @ segment))
      | Inr (Some f) \<Rightarrow> Inr (Some f))"

definition sequential_resolution :: "VmwareFolderManager \<Rightarrow> string list \<Rightarrow> outcome + moid option" where
  "sequential_resolution self segments =
     foldl (\<lambda>acc segment. case acc of Inl out \<Rightarrow> Inl out
                                     | Inr anchor \<Rightarrow> resolve_segment self anchor segment)
       (Inr None) segments"

text \<open>
  The object two parent levels up from an object (the spec's ancestor at depth two), when
  both parents are there.
\<close>

definition grandparent :: "client \<Rightarrow> moid \<Rightarrow> moid option" where
  "grandparent c m =
     (case objects c m of
        None \<Rightarrow> None
      | Some obj \<Rightarrow>
          (case parent obj of
             None \<Rightarrow> None
           | Some p \<Rightarrow> (case objects c p of None \<Rightarrow> None | Some pobj \<Rightarrow> parent pobj)))"

text \<open>
  The parent chain of an object in the property store: its parent, the parent of that,
  and so on, for at most \<open>n\<close> steps. It ends where an object has no parent or is not in
  the store.
\<close>

fun ancestry :: "client \<Rightarrow> nat \<Rightarrow> moid \<Rightarrow> moid list" where
  "ancestry c 0 m = []"
| "ancestry c (Suc n) m =
     (case objects c m of
        None \<Rightarrow> []
      | Some obj \<Rightarrow> (case parent obj of None \<Rightarrow> [] | Some p \<Rightarrow> p # ancestry c n p))"

text \<open>
  The spec's check mode contract speaks of the action that would be taken and of a
  descriptive message. A call succeeds when the method returns, and for the wait when the
  task ends in success. \<open>parent_label\<close> is the parent as the messages name it: the
  name of the object with the given id, or else the parent parameter. \<open>dry_run_message\<close>
  is the message of a run in check mode that would act: it names the folder, its type,
  the parent when one is given, and the action. \<open>exists_message\<close> tells whether a
  result reports that the folder already exists, under the parent when one is given.
\<close>

fun call_succeeds :: "client \<Rightarrow> call \<Rightarrow> bool" where
  "call_succeeds c (CreateFolder_call p n) =
     (case CreateFolder c p n of Inl e \<Rightarrow> False | Inr new_folder \<Rightarrow> True)"
| "call_succeeds c (Destroy_call f) =
     (case Destroy c f of Inl e \<Rightarrow> False | Inr t \<Rightarrow> True)"
| "call_succeeds c (UnregisterAndDestroy_call f) =
     (case UnregisterAndDestroy c f of Inl e \<Rightarrow> False | Inr t \<Rightarrow> True)"
| "call_succeeds c (wait_for_task_call t) =
     (case wait_for_task c t of Inl e \<Rightarrow> False | Inr (ok, m) \<Rightarrow> ok)"

definition quoted :: "string \<Rightarrow> string" where
  "quoted s = [CHR 0x27] @ s @ [CHR 0x27]"

definition parent_label :: "VmwareFolderManager \<Rightarrow> string option" where
  "parent_label self =
     (case py_str (p_parent_folder_moid (params self)) of
        Some moid \<Rightarrow>
          (case objects (content self) moid of None \<Rightarrow> None | Some obj \<Rightarrow> Some (name obj))
      | None \<Rightarrow> py_str (p_parent_folder (params self)))"

definition dry_run_message :: "VmwareFolderManager \<Rightarrow> string" where
  "dry_run_message self =
     ''Folder '' @ quoted (p_folder_name (params self))
     @ '' of type '' @ quoted (fmt_type (p_folder_type (params self)))
     @ (case p_state (params self) of
          present \<Rightarrow>
            (case parent_label self of None \<Rightarrow> [] | Some p \<Rightarrow> '' under '' @ quoted p)
            @ '' will be created.''
        | absent \<Rightarrow>
            (case py_str (parent_label self) of None \<Rightarrow> [] | Some p \<Rightarrow> '' under '' @ quoted p)
            @ '' will be removed.'')"

definition exists_message :: "VmwareFolderManager \<Rightarrow> result_value \<Rightarrow> bool" where
  "exists_message self v =
     (case parent_label self of
        Some p \<Rightarrow>
          v = result_str (''Folder '' @ p_folder_name (params self)
                          @ '' already exists under parent folder '' @ p)
      | None \<Rightarrow>
          result_msg v = Some (''Folder '' @ p_folder_name (params self) @ '' already exists''))"

section \<open>Concrete inventories\<close>

text \<open>
  Modelled from the spec: \<^verbatim>\<open>get_all_objs\<close> of \<^verbatim>\<open>module_utils.vmware\<close> is not under
  \<^verbatim>\<open>src/\<close>. The spec's Inventory Client enumerates the objects of a type under an
  anchor. For an inventory given as a list of objects, \<open>objs_under\<close> lists, in the
  order of the inventory, the objects of the given types that have the anchor among
  their ancestors; when the caller gives no folder the anchor is the folder \<open>rootFolder\<close>.
  The parent chain is followed for at most as many steps as there are objects.
\<close>

fun ancestors :: "(moid \<times> managed_object) list \<Rightarrow> nat \<Rightarrow> moid \<Rightarrow> moid list" where
  "ancestors store 0 m = []"
| "ancestors store (Suc n) m =
     (case map_of store m of
        None \<Rightarrow> []
      | Some obj \<Rightarrow> (case parent obj of None \<Rightarrow> [] | Some p \<Rightarrow> p # ancestors store n p))"

definition objs_under ::
  "(moid \<times> managed_object) list \<Rightarrow> moid \<Rightarrow> vimtype list \<Rightarrow> moid option \<Rightarrow> moid list"
where
  "objs_under store rootFolder types folder =
     (let anchor = (case folder of None \<Rightarrow> rootFolder | Some f \<Rightarrow> f) in
      map fst (filter (\<lambda>(m, obj). vimtype obj \<in> set types
                          \<and> anchor \<in> set (ancestors store (length store) m)) store))"

text \<open>
  Modelled from the spec: \<^verbatim>\<open>get_folder_path\<close> of \<^verbatim>\<open>module_utils.vmware\<close> is not under
  \<^verbatim>\<open>src/\<close>. The path is the chain of names from the folder up to, and without, the
  root folder, top down, joined by slashes.
\<close>

fun join :: "string \<Rightarrow> string list \<Rightarrow> string" where
  "join sep [] = []"
| "join sep [x] = x"
| "join sep (x # y # ys) = x @ sep @ join sep (y # ys)"

definition folder_path :: "(moid \<times> managed_object) list \<Rightarrow> moid \<Rightarrow> moid \<Rightarrow> string" where
  "folder_path store rootFolder m =
     join ''/'' (map (\<lambda>a. case map_of store a of None \<Rightarrow> [] | Some obj \<Rightarrow> name obj)
       (rev (m # takeWhile (\<lambda>a. a \<noteq> rootFolder) (ancestors store (length store) m))))"

definition vm_signature :: "string list" where
  "vm_signature = [''Folder'', ''VirtualMachine'', ''VirtualApp'']"

definition host_signature :: "string list" where
  "host_signature = [''Folder'', ''ComputeResource'']"

definition datastore_signature :: "string list" where
  "datastore_signature = [''Folder'', ''Datastore'', ''StoragePod'']"

definition network_signature :: "string list" where
  "network_signature = [''Folder'', ''Network'', ''DistributedVirtualSwitch'']"

definition mk_folder :: "string \<Rightarrow> string list \<Rightarrow> moid \<Rightarrow> managed_object" where
  "mk_folder n sig p = \<lparr>name = n, vimtype = Folder, childType = sig, parent = Some p\<rparr>"

definition mk_datacenter :: "string \<Rightarrow> moid \<Rightarrow> managed_object" where
  "mk_datacenter n p = \<lparr>name = n, vimtype = Datacenter, childType = [], parent = Some p\<rparr>"

text \<open>
  Two datacenters \<^verbatim>\<open>DC0\<close> and \<^verbatim>\<open>DC1\<close> under the root folder \<^verbatim>\<open>d0\<close>. \<^verbatim>\<open>DC0\<close> has
  its four category roots, a folder \<^verbatim>\<open>Shared\<close> in the vm tree and another in the
  network tree, and the vm folders \<^verbatim>\<open>tier1/tier2/tier3\<close>. \<^verbatim>\<open>DC1\<close> has a vm folder
  \<^verbatim>\<open>X\<close>.
\<close>

definition inventory0 :: "(moid \<times> managed_object) list" where
  "inventory0 =
     [(''d0'', \<lparr>name = ''Datacenters'', vimtype = Folder,
               childType = [''Folder'', ''Datacenter''], parent = None\<rparr>),
      (''dc0'', mk_datacenter ''DC0'' ''d0''),
      (''v0'', mk_folder ''vm'' vm_signature ''dc0''),
      (''h0'', mk_folder ''host'' host_signature ''dc0''),
      (''s0'', mk_folder ''datastore'' datastore_signature ''dc0''),
      (''n0'', mk_folder ''network'' network_signature ''dc0''),
      (''n1'', mk_folder ''Shared'' network_signature ''n0''),
      (''v1'', mk_folder ''Shared'' vm_signature ''v0''),
      (''v2'', mk_folder ''tier1'' vm_signature ''v0''),
      (''v3'', mk_folder ''tier2'' vm_signature ''v2''),
      (''v4'', mk_folder ''tier3'' vm_signature ''v3''),
      (''dc1'', mk_datacenter ''DC1'' ''d0''),
      (''w0'', mk_folder ''vm'' vm_signature ''dc1''),
      (''w1'', mk_folder ''X'' vm_signature ''w0'')]"

text \<open>
  The same inventory with one more branch in the vm tree of \<^verbatim>\<open>DC0\<close>: a folder that
  bears the datacenter's name, \<^verbatim>\<open>DC0/vm/DC0/sub/Y\<close>.
\<close>

definition inventory1 :: "(moid \<times> managed_object) list" where
  "inventory1 = inventory0 @
     [(''v5'', mk_folder ''DC0'' vm_signature ''v0''),
      (''v6'', mk_folder ''sub'' vm_signature ''v5''),
      (''v7'', mk_folder ''Y'' vm_signature ''v6'')]"

text \<open>
  A client on an inventory, with the answers of the server to the three mutations and
  to the wait for a task.
\<close>

definition client_of ::
  "(moid \<times> managed_object) list \<Rightarrow> (moid \<Rightarrow> string \<Rightarrow> exn + moid) \<Rightarrow> (moid \<Rightarrow> exn + task)
     \<Rightarrow> (task \<Rightarrow> exn + bool \<times> string) \<Rightarrow> client"
where
  "client_of store create destroy wait =
     \<lparr>objects = map_of store, get_all_objs = objs_under store ''d0'',
      get_folder_path = folder_path store ''d0'', CreateFolder = create,
      Destroy = destroy, UnregisterAndDestroy = destroy, wait_for_task = wait\<rparr>"

definition dc0_roots :: "FolderCategory \<Rightarrow> moid" where
  "dc0_roots t = (case t of vm \<Rightarrow> ''v0'' | host \<Rightarrow> ''h0'' | datastore \<Rightarrow> ''s0'' | network \<Rightarrow> ''n0'')"

text \<open>A server on which every mutation succeeds.\<close>

definition quiet_client :: "(moid \<times> managed_object) list \<Rightarrow> client" where
  "quiet_client store =
     client_of store (\<lambda>p n. Inr ''new'') (\<lambda>f. Inr ''task-1'') (\<lambda>t. Inr (True, ''done''))"

definition manager ::
  "client \<Rightarrow> desired_state \<Rightarrow> FolderCategory \<Rightarrow> string \<Rightarrow> string option \<Rightarrow> string option \<Rightarrow> bool
     \<Rightarrow> VmwareFolderManager"
where
  "manager c st t n pf pm chk =
     \<lparr>content = c,
      params = \<lparr>p_state = st, p_datacenter = ''DC0'', p_folder_type = t, p_folder_name = n,
                 p_parent_folder = pf, p_parent_folder_moid = pm\<rparr>,
      check_mode = chk, datacenter_folder_type = dc0_roots\<rparr>"

text \<open>
  Managers for the datacenter \<^verbatim>\<open>DC0\<close> used in the examples: \<open>manager0\<close> on the first
  inventory, \<open>manager1\<close> on the one with the folder named like the datacenter.
\<close>

definition manager0 :: VmwareFolderManager where
  "manager0 = manager (quiet_client inventory0) present vm ''Shared'' None None False"

definition manager1 :: VmwareFolderManager where
  "manager1 = manager (quiet_client inventory1) present vm ''Y'' None None False"

text \<open>
  The first inventory with one more branch in the vm tree of the other datacenter,
  \<^verbatim>\<open>DC1\<close>: a folder that bears the name of \<^verbatim>\<open>DC0\<close>, \<^verbatim>\<open>DC1/vm/DC0/sub/Z\<close>. The folder
  \<^verbatim>\<open>Z\<close> exists nowhere else. \<open>manager2\<close> looks \<^verbatim>\<open>Z\<close> up in \<^verbatim>\<open>DC0\<close>, and
  \<open>manager2_absent\<close> asks for its removal there.
\<close>

definition inventory2 :: "(moid \<times> managed_object) list" where
  "inventory2 = inventory0 @
     [(''w5'', mk_folder ''DC0'' vm_signature ''w0''),
      (''w6'', mk_folder ''sub'' vm_signature ''w5''),
      (''w7'', mk_folder ''Z'' vm_signature ''w6'')]"

definition manager2 :: VmwareFolderManager where
  "manager2 = manager (quiet_client inventory2) present vm ''Z'' None None False"

definition manager2_absent :: VmwareFolderManager where
  "manager2_absent = manager (quiet_client inventory2) absent vm ''Z'' None None False"

text \<open>
  A run that asks for \<^verbatim>\<open>tier4\<close> under the parent path \<^verbatim>\<open>/tier1/x/tier3/\<close>, of which
  the second segment does not exist.
\<close>

definition manager_broken_path :: VmwareFolderManager where
  "manager_broken_path =
     manager (quiet_client inventory0) present vm ''tier4'' (Some ''/tier1/x/tier3/'') None False"

text \<open>
  A server that refuses every creation: with \<^verbatim>\<open>InvalidName\<close> for the name
  \<^verbatim>\<open>bad%name\<close>, with another exception for the name \<^verbatim>\<open>boom\<close>, and with
  \<^verbatim>\<open>DuplicateName\<close> for every other name. Deletions succeed.
\<close>

definition refusing_client :: "(moid \<times> managed_object) list \<Rightarrow> client" where
  "refusing_client store =
     client_of store
       (\<lambda>p n. if n = ''bad%name'' then Inl (InvalidName n)
               else if n = ''boom'' then Inl (OtherException ''connection lost'')
               else Inl (DuplicateName n))
       (\<lambda>f. Inr ''task-1'') (\<lambda>t. Inr (True, ''done''))"

text \<open>The \<^verbatim>\<open>changed\<close> flag that a run reports, when it ends in \<^verbatim>\<open>exit_json\<close>.\<close>

fun reported_changed :: "outcome \<Rightarrow> bool option" where
  "reported_changed (exit_json r) = Some (changed r)"
| "reported_changed (fail_json m) = None"
| "reported_changed (uncaught e) = None"

text \<open>
  Runs on the first inventory. Deletions: of the vm folder \<^verbatim>\<open>tier3\<close> under the parent
  with the id \<^verbatim>\<open>v3\<close>, of the network folder \<^verbatim>\<open>Shared\<close>, and of a folder \<^verbatim>\<open>Nope\<close>
  that does not exist under the network folder \<^verbatim>\<open>Shared\<close> (outside check mode and in
  it).
\<close>

definition manager_delete_vm :: VmwareFolderManager where
  "manager_delete_vm = manager (quiet_client inventory0) absent vm ''tier3'' None (Some ''v3'') False"

definition manager_delete_network :: VmwareFolderManager where
  "manager_delete_network =
     manager (quiet_client inventory0) absent network ''Shared'' None None False"

definition manager_delete_missing :: VmwareFolderManager where
  "manager_delete_missing =
     manager (quiet_client inventory0) absent network ''Nope'' (Some ''Shared'') None False"

definition manager_delete_missing_check :: VmwareFolderManager where
  "manager_delete_missing_check =
     manager (quiet_client inventory0) absent network ''Nope'' (Some ''Shared'') None True"

text \<open>
  Creations that the server refuses: \<^verbatim>\<open>Finance\<close> at the vm root (in check mode and
  outside of it), \<^verbatim>\<open>bad%name\<close> under \<^verbatim>\<open>tier1\<close>, and \<^verbatim>\<open>boom\<close> under the parent with
  the id \<^verbatim>\<open>v3\<close>.
\<close>

definition manager_duplicate_check :: VmwareFolderManager where
  "manager_duplicate_check =
     manager (refusing_client inventory0) present vm ''Finance'' None None True"

definition manager_duplicate :: VmwareFolderManager where
  "manager_duplicate =
     manager (refusing_client inventory0) present vm ''Finance'' None None False"

definition manager_invalid :: VmwareFolderManager where
  "manager_invalid =
     manager (refusing_client inventory0) present vm ''bad%name'' (Some ''tier1'') None False"

definition manager_boom :: VmwareFolderManager where
  "manager_boom =
     manager (refusing_client inventory0) present vm ''boom'' None (Some ''v3'') False"

text \<open>
  A creation of \<^verbatim>\<open>tier4\<close> under \<^verbatim>\<open>tier1/tier2\<close> in check mode, and runs that ask for a
  folder that exists: \<^verbatim>\<open>tier2\<close> under the parent named \<^verbatim>\<open>tier1\<close> (in check mode and
  outside of it), \<^verbatim>\<open>tier3\<close> under the parent with the id \<^verbatim>\<open>v3\<close>, and \<^verbatim>\<open>tier1\<close> with no
  parent.
\<close>

definition manager_check_create :: VmwareFolderManager where
  "manager_check_create =
     manager (quiet_client inventory0) present vm ''tier4'' (Some ''tier1/tier2'') None True"

definition manager_found_check :: VmwareFolderManager where
  "manager_found_check =
     manager (quiet_client inventory0) present vm ''tier2'' (Some ''tier1'') None True"

definition manager_found_by_name :: VmwareFolderManager where
  "manager_found_by_name =
     manager (quiet_client inventory0) present vm ''tier2'' (Some ''tier1'') None False"

definition manager_found_by_moid :: VmwareFolderManager where
  "manager_found_by_moid =
     manager (quiet_client inventory0) present vm ''tier3'' None (Some ''v3'') False"

definition manager_found_top :: VmwareFolderManager where
  "manager_found_top =
     manager (quiet_client inventory0) present vm ''tier1'' None None False"

section \<open>Properties of \<^verbatim>\<open>get_folder\<close>\<close>

lemma py_and_True: "py_and a b = Inr True \<longleftrightarrow> a = Inr True \<and> b = Inr True"
  by (auto simp: py_and_def split: sum.splits bool.splits)

lemma eq_exn_True: "eq_exn a b = Inr True \<longleftrightarrow> (\<exists>x. a = Inr x \<and> b = Inr x)"
  by (auto simp: eq_exn_def split: sum.splits)

lemma attr_name_Inr: "attr_name c m = Inr n \<longleftrightarrow> (\<exists>obj. objects c m = Some obj \<and> name obj = n)"
  by (auto simp: attr_name_def fetch_def split: option.splits)

lemma attr_childType_Inr:
  "attr_childType c m = Inr s \<longleftrightarrow> (\<exists>obj. objects c m = Some obj \<and> childType obj = s)"
  by (auto simp: attr_childType_def fetch_def split: option.splits)

lemma attr_parent_Inr:
  "attr_parent c m = Inr q \<longleftrightarrow> (\<exists>obj. objects c m = Some obj \<and> parent obj = q)"
  by (auto simp: attr_parent_def fetch_def split: option.splits)

lemma parent_parent_name_Inr:
  "parent_parent_name c m = Inr n \<longleftrightarrow>
     (\<exists>obj p pobj g gobj. objects c m = Some obj \<and> parent obj = Some p \<and>
        objects c p = Some pobj \<and> parent pobj = Some g \<and>
        objects c g = Some gobj \<and> name gobj = n)"
  by (auto simp: parent_parent_name_def attr_parent_def attr_name_def fetch_def split: sum.splits option.splits)

lemma folder_matches_True:
  "folder_matches self dc fn ft pf f = Inr True \<longleftrightarrow>
     (\<exists>obj root. objects (content self) f = Some obj \<and> name obj = fn \<and>
        objects (content self) (datacenter_folder_type self ft) = Some root \<and>
        childType root = childType obj \<and>
        (pf = None \<longrightarrow> parent_parent_name (content self) f = Inr dc))"
  by (cases pf) (auto simp: folder_matches_def py_and_True eq_exn_True attr_name_Inr attr_childType_Inr)

lemma get_folder_loop_Some:
  "get_folder_loop self dc fn ft pf xs = Inr (Some f) \<Longrightarrow>
     f \<in> set xs \<and> folder_matches self dc fn ft pf f = Inr True"
  by (induction xs) (auto split: sum.splits bool.splits)

lemma get_folder_loop_None:
  "\<forall>x \<in> set xs. folder_matches self dc fn ft pf x = Inr False \<Longrightarrow>
     get_folder_loop self dc fn ft pf xs = Inr None"
  by (induction xs) auto

lemma get_folder_Some:
  "get_folder self dc fn ft pf = Inr (Some f) \<Longrightarrow>
     f \<in> set (get_all_objs (content self) [Folder] pf) \<and> folder_matches self dc fn ft pf f = Inr True"
  unfolding get_folder_def by (rule get_folder_loop_Some)

lemma folder_matches_False:
  assumes "objects (content self) f = Some obj"
    and "objects (content self) (datacenter_folder_type self ft) = Some root"
    and "name obj = fn \<and> childType obj = childType root \<longrightarrow>
           (\<exists>n. parent_parent_name (content self) f = Inr n \<and> n \<noteq> dc)"
  shows "folder_matches self dc fn ft None f = Inr False"
  using assms
  by (auto simp: folder_matches_def py_and_def eq_exn_def attr_name_def attr_childType_def fetch_def
      split: bool.splits)

lemma grandparent_Some:
  "grandparent c m = Some g \<longleftrightarrow>
     (\<exists>obj p pobj. objects c m = Some obj \<and> parent obj = Some p \<and>
        objects c p = Some pobj \<and> parent pobj = Some g)"
  by (auto simp: grandparent_def split: option.splits)

subsection \<open>The example inventory\<close>

lemma objects_manager0: "objects (content manager0) = map_of inventory0"
  by (simp add: manager0_def manager_def quiet_client_def client_of_def)

lemma folders_manager0:
  "get_all_objs (content manager0) [Folder] None =
     [''v0'', ''h0'', ''s0'', ''n0'', ''n1'', ''v1'', ''v2'', ''v3'', ''v4'', ''w0'', ''w1'']"
  by code_simp

subsection \<open>Category disambiguation\<close>

text \<open>
  Claim C2. Whatever the inventory and the anchor, a folder that \<^verbatim>\<open>get_folder\<close> returns
  bears the requested name and has the child type signature of the datacenter's root
  folder of the requested category. So an object whose signature differs from that of
  the category's root is never returned: with a vm folder and a network folder of the
  same name, a lookup in the vm category does not return the network folder.
\<close>

theorem get_folder_category_disambiguation:
  "(get_folder self datacenter_name folder_name folder_type parent_folder = Inr (Some f) \<longrightarrow>
      (\<exists>obj root. objects (content self) f = Some obj \<and> name obj = folder_name \<and>
         objects (content self) (datacenter_folder_type self folder_type) = Some root \<and>
         childType obj = childType root)) \<and>
   (\<forall>n nobj root. objects (content self) n = Some nobj \<and>
         objects (content self) (datacenter_folder_type self folder_type) = Some root \<and>
         childType nobj \<noteq> childType root \<longrightarrow>
      get_folder self datacenter_name folder_name folder_type parent_folder \<noteq> Inr (Some n))"
proof -
  have sound: "\<exists>obj root. objects (content self) g = Some obj \<and> name obj = folder_name \<and>
         objects (content self) (datacenter_folder_type self folder_type) = Some root \<and>
         childType obj = childType root"
    if "get_folder self datacenter_name folder_name folder_type parent_folder = Inr (Some g)" for g
  proof -
    from that have "folder_matches self datacenter_name folder_name folder_type parent_folder g = Inr True"
      unfolding get_folder_def by (rule get_folder_loop_Some [THEN conjunct2])
    then show ?thesis
      unfolding folder_matches_True by metis
  qed
  show ?thesis
  proof (intro conjI impI allI)
    assume "get_folder self datacenter_name folder_name folder_type parent_folder = Inr (Some f)"
    then show "\<exists>obj root. objects (content self) f = Some obj \<and> name obj = folder_name \<and>
         objects (content self) (datacenter_folder_type self folder_type) = Some root \<and>
         childType obj = childType root"
      by (rule sound)
  next
    fix n nobj root
    assume h: "objects (content self) n = Some nobj \<and>
         objects (content self) (datacenter_folder_type self folder_type) = Some root \<and>
         childType nobj \<noteq> childType root"
    show "get_folder self datacenter_name folder_name folder_type parent_folder \<noteq> Inr (Some n)"
    proof
      assume "get_folder self datacenter_name folder_name folder_type parent_folder = Inr (Some n)"
      from sound [OF this] h show False by auto
    qed
  qed
qed

text \<open>
  In the example inventory the name \<^verbatim>\<open>Shared\<close> is borne by the vm folder \<^verbatim>\<open>v1\<close> and
  by the network folder \<^verbatim>\<open>n1\<close> of the same datacenter; each category finds its own.
\<close>

theorem get_folder_category_disambiguation_witness:
  "get_folder manager0 ''DC0'' ''Shared'' vm None = Inr (Some ''v1'') \<and>
   get_folder manager0 ''DC0'' ''Shared'' network None = Inr (Some ''n1'') \<and>
   (\<exists>obj root. objects (content manager0) ''v1'' = Some obj \<and> name obj = ''Shared'' \<and>
      objects (content manager0) (datacenter_folder_type manager0 vm) = Some root \<and>
      childType obj = childType root) \<and>
   objects (content manager0) ''n1'' = Some (mk_folder ''Shared'' network_signature ''n0'') \<and>
   objects (content manager0) (datacenter_folder_type manager0 vm) = Some (mk_folder ''vm'' vm_signature ''dc0'') \<and>
   childType (mk_folder ''Shared'' network_signature ''n0'') \<noteq> childType (mk_folder ''vm'' vm_signature ''dc0'') \<and>
   get_folder manager0 ''DC0'' ''Shared'' vm None \<noteq> Inr (Some ''n1'')"
proof -
  have a: "get_folder manager0 ''DC0'' ''Shared'' vm None = Inr (Some ''v1'')"
    by code_simp
  have b: "get_folder manager0 ''DC0'' ''Shared'' network None = Inr (Some ''n1'')"
    by code_simp
  have c: "objects (content manager0) ''n1'' = Some (mk_folder ''Shared'' network_signature ''n0'')"
    by code_simp
  have d: "objects (content manager0) (datacenter_folder_type manager0 vm) = Some (mk_folder ''vm'' vm_signature ''dc0'')"
    by code_simp
  have e: "childType (mk_folder ''Shared'' network_signature ''n0'') \<noteq> childType (mk_folder ''vm'' vm_signature ''dc0'')"
    by code_simp
  note t = get_folder_category_disambiguation [of manager0 "''DC0''" "''Shared''" vm None "''v1''"]
  from t a have f: "\<exists>obj root. objects (content manager0) ''v1'' = Some obj \<and> name obj = ''Shared'' \<and>
      objects (content manager0) (datacenter_folder_type manager0 vm) = Some root \<and>
      childType obj = childType root"
    by blast
  from t c d e have g: "get_folder manager0 ''DC0'' ''Shared'' vm None \<noteq> Inr (Some ''n1'')"
    by blast
  from a b c d e f g show ?thesis by blast
qed

subsection \<open>The datacenter scope of a lookup by name only\<close>

lemma get_folder_None_other_names:
  assumes root: "objects (content self) (datacenter_folder_type self folder_type) = Some root"
    and far: "\<forall>m \<in> set (get_all_objs (content self) [Folder] None).
       \<exists>obj. objects (content self) m = Some obj \<and>
         (name obj = folder_name \<and> childType obj = childType root \<longrightarrow>
            (\<exists>n. parent_parent_name (content self) m = Inr n \<and> n \<noteq> datacenter_name))"
  shows "get_folder self datacenter_name folder_name folder_type None = Inr None"
proof -
  have "folder_matches self datacenter_name folder_name folder_type None m = Inr False"
    if m: "m \<in> set (get_all_objs (content self) [Folder] None)" for m
  proof -
    from far m obtain obj where obj: "objects (content self) m = Some obj"
      and other: "name obj = folder_name \<and> childType obj = childType root \<longrightarrow>
            (\<exists>n. parent_parent_name (content self) m = Inr n \<and> n \<noteq> datacenter_name)"
      by blast
    from obj root other show ?thesis
      by (rule folder_matches_False)
  qed
  then show ?thesis
    unfolding get_folder_def by (intro get_folder_loop_None) blast
qed

lemma ancestry_two:
  assumes "2 \<le> length (ancestry c n m)"
  shows "\<exists>obj p pobj g. objects c m = Some obj \<and> parent obj = Some p \<and>
           objects c p = Some pobj \<and> parent pobj = Some g \<and> g \<in> set (ancestry c n m)"
proof (cases n)
  case 0
  with assms show ?thesis by simp
next
  case (Suc k)
  note n = this
  show ?thesis
  proof (cases k)
    case 0
    with n assms show ?thesis
      by (auto split: option.splits)
  next
    case (Suc j)
    with n assms show ?thesis
      by (auto split: option.splits)
  qed
qed

text \<open>
  Claim C3, as the claim states it, fails. The guard of \<^verbatim>\<open>get_folder\<close> reads the name
  of the object two parent levels up, and a folder may bear the name of a datacenter. In
  the third example inventory the folder \<^verbatim>\<open>Z\<close> exists only under the vm root \<^verbatim>\<open>w0\<close> of
  the datacenter \<^verbatim>\<open>DC1\<close>, at \<^verbatim>\<open>DC1/vm/DC0/sub/Z\<close>; a lookup of \<^verbatim>\<open>Z\<close> by name only in
  the datacenter \<^verbatim>\<open>DC0\<close> returns it, and a run with state \<^verbatim>\<open>absent\<close> there destroys
  it.
\<close>

theorem get_folder_datacenter_scope_counterexample:
  "get_folder manager2 ''DC0'' ''Z'' vm None = Inr (Some ''w7'') \<and>
   ancestors inventory2 (length inventory2) ''w7'' = [''w6'', ''w5'', ''w0'', ''dc1'', ''d0''] \<and>
   map_of inventory2 ''w0'' = Some (mk_folder ''vm'' vm_signature ''dc1'') \<and>
   map_of inventory2 ''dc1'' = Some (mk_datacenter ''DC1'' ''d0'') \<and>
   filter (\<lambda>m. map_option name (map_of inventory2 m) = Some ''Z'') (map fst inventory2) = [''w7''] \<and>
   ensure manager2_absent =
     (exit_json \<lparr>changed = True, result = result_dict None None, msg = Some ''done''\<rparr>,
      [UnregisterAndDestroy_call ''w7'', wait_for_task_call ''task-1''])"
  by code_simp

text \<open>
  Claim C3, amended. With no parent folder, \<^verbatim>\<open>get_folder\<close> returns a folder only if the
  object two parent levels up from it bears the requested datacenter name. Hence the
  lookup returns \<^verbatim>\<open>None\<close> when, for every listed folder with the requested name and
  signature, the object two parent levels up bears another name. This is so when every
  such folder lies under a category root of another datacenter and no object on its
  parent chain up to that datacenter bears the requested datacenter name: the chain has
  at least two objects (the folder lies under a child of the datacenter), it ends in a
  datacenter, and none of its objects bears the name.
\<close>

theorem get_folder_datacenter_scope:
  "(get_folder self datacenter_name folder_name folder_type None = Inr (Some f) \<longrightarrow>
      parent_parent_name (content self) f = Inr datacenter_name) \<and>
   (objects (content self) (datacenter_folder_type self folder_type) = Some root \<and>
    (\<forall>m \<in> set (get_all_objs (content self) [Folder] None).
       \<exists>obj. objects (content self) m = Some obj \<and>
         (name obj = folder_name \<and> childType obj = childType root \<longrightarrow>
            (\<exists>p pobj d dobj. parent obj = Some p \<and> objects (content self) p = Some pobj \<and>
               parent pobj = Some d \<and> objects (content self) d = Some dobj \<and>
               name dobj \<noteq> datacenter_name))) \<longrightarrow>
      get_folder self datacenter_name folder_name folder_type None = Inr None) \<and>
   (objects (content self) (datacenter_folder_type self folder_type) = Some root \<and>
    (\<forall>m \<in> set (get_all_objs (content self) [Folder] None).
       \<exists>obj. objects (content self) m = Some obj \<and>
         (name obj = folder_name \<and> childType obj = childType root \<longrightarrow>
            (\<exists>n. 2 \<le> length (ancestry (content self) n m) \<and>
               (\<exists>dobj. objects (content self) (last (ancestry (content self) n m)) = Some dobj \<and>
                  vimtype dobj = Datacenter) \<and>
               (\<forall>a \<in> set (ancestry (content self) n m).
                  \<exists>aobj. objects (content self) a = Some aobj \<and> name aobj \<noteq> datacenter_name)))) \<longrightarrow>
      get_folder self datacenter_name folder_name folder_type None = Inr None)"
proof (intro conjI impI)
  assume "get_folder self datacenter_name folder_name folder_type None = Inr (Some f)"
  then have "folder_matches self datacenter_name folder_name folder_type None f = Inr True"
    by (simp add: get_folder_Some)
  then show "parent_parent_name (content self) f = Inr datacenter_name"
    unfolding folder_matches_True by blast
next
  assume h: "objects (content self) (datacenter_folder_type self folder_type) = Some root \<and>
    (\<forall>m \<in> set (get_all_objs (content self) [Folder] None).
       \<exists>obj. objects (content self) m = Some obj \<and>
         (name obj = folder_name \<and> childType obj = childType root \<longrightarrow>
            (\<exists>p pobj d dobj. parent obj = Some p \<and> objects (content self) p = Some pobj \<and>
               parent pobj = Some d \<and> objects (content self) d = Some dobj \<and>
               name dobj \<noteq> datacenter_name)))"
  have "\<forall>m \<in> set (get_all_objs (content self) [Folder] None).
       \<exists>obj. objects (content self) m = Some obj \<and>
         (name obj = folder_name \<and> childType obj = childType root \<longrightarrow>
            (\<exists>n. parent_parent_name (content self) m = Inr n \<and> n \<noteq> datacenter_name))"
  proof
    fix m assume "m \<in> set (get_all_objs (content self) [Folder] None)"
    with h obtain obj where obj: "objects (content self) m = Some obj"
      and far: "name obj = folder_name \<and> childType obj = childType root \<longrightarrow>
            (\<exists>p pobj d dobj. parent obj = Some p \<and> objects (content self) p = Some pobj \<and>
               parent pobj = Some d \<and> objects (content self) d = Some dobj \<and>
               name dobj \<noteq> datacenter_name)"
      by blast
    have "name obj = folder_name \<and> childType obj = childType root \<longrightarrow>
           (\<exists>n. parent_parent_name (content self) m = Inr n \<and> n \<noteq> datacenter_name)"
      using far obj by (auto simp: parent_parent_name_Inr)
    with obj show "\<exists>obj. objects (content self) m = Some obj \<and>
         (name obj = folder_name \<and> childType obj = childType root \<longrightarrow>
            (\<exists>n. parent_parent_name (content self) m = Inr n \<and> n \<noteq> datacenter_name))"
      by blast
  qed
  with h show "get_folder self datacenter_name folder_name folder_type None = Inr None"
    by (intro get_folder_None_other_names [where root = root]) simp_all
next
  assume h: "objects (content self) (datacenter_folder_type self folder_type) = Some root \<and>
    (\<forall>m \<in> set (get_all_objs (content self) [Folder] None).
       \<exists>obj. objects (content self) m = Some obj \<and>
         (name obj = folder_name \<and> childType obj = childType root \<longrightarrow>
            (\<exists>n. 2 \<le> length (ancestry (content self) n m) \<and>
               (\<exists>dobj. objects (content self) (last (ancestry (content self) n m)) = Some dobj \<and>
                  vimtype dobj = Datacenter) \<and>
               (\<forall>a \<in> set (ancestry (content self) n m).
                  \<exists>aobj. objects (content self) a = Some aobj \<and> name aobj \<noteq> datacenter_name))))"
  have "\<forall>m \<in> set (get_all_objs (content self) [Folder] None).
       \<exists>obj. objects (content self) m = Some obj \<and>
         (name obj = folder_name \<and> childType obj = childType root \<longrightarrow>
            (\<exists>n. parent_parent_name (content self) m = Inr n \<and> n \<noteq> datacenter_name))"
  proof
    fix m assume "m \<in> set (get_all_objs (content self) [Folder] None)"
    with h obtain obj where obj: "objects (content self) m = Some obj"
      and far: "name obj = folder_name \<and> childType obj = childType root \<longrightarrow>
            (\<exists>n. 2 \<le> length (ancestry (content self) n m) \<and>
               (\<forall>a \<in> set (ancestry (content self) n m).
                  \<exists>aobj. objects (content self) a = Some aobj \<and> name aobj \<noteq> datacenter_name))"
      by blast
    have "name obj = folder_name \<and> childType obj = childType root \<longrightarrow>
           (\<exists>n. parent_parent_name (content self) m = Inr n \<and> n \<noteq> datacenter_name)"
    proof
      assume "name obj = folder_name \<and> childType obj = childType root"
      with far obtain n where len: "2 \<le> length (ancestry (content self) n m)"
        and names: "\<forall>a \<in> set (ancestry (content self) n m).
                  \<exists>aobj. objects (content self) a = Some aobj \<and> name aobj \<noteq> datacenter_name"
        by blast
      from ancestry_two [OF len] obtain obj' p pobj g where
        up: "objects (content self) m = Some obj'" "parent obj' = Some p"
          "objects (content self) p = Some pobj" "parent pobj = Some g"
          "g \<in> set (ancestry (content self) n m)"
        by blast
      from names up(5) obtain gobj where
        g: "objects (content self) g = Some gobj" "name gobj \<noteq> datacenter_name"
        by blast
      from up g have "parent_parent_name (content self) m = Inr (name gobj)"
        by (auto simp: parent_parent_name_Inr)
      with g(2) show "\<exists>n. parent_parent_name (content self) m = Inr n \<and> n \<noteq> datacenter_name"
        by blast
    qed
    with obj show "\<exists>obj. objects (content self) m = Some obj \<and>
         (name obj = folder_name \<and> childType obj = childType root \<longrightarrow>
            (\<exists>n. parent_parent_name (content self) m = Inr n \<and> n \<noteq> datacenter_name))"
      by blast
  qed
  with h show "get_folder self datacenter_name folder_name folder_type None = Inr None"
    by (intro get_folder_None_other_names [where root = root]) simp_all
qed

text \<open>
  In the first example inventory \<^verbatim>\<open>X\<close> exists only as \<^verbatim>\<open>DC1/vm/X\<close>, with the parent
  chain \<^verbatim>\<open>w0\<close>, \<^verbatim>\<open>dc1\<close>; asked in \<^verbatim>\<open>DC0\<close>, the lookup returns \<^verbatim>\<open>None\<close>.
\<close>

theorem get_folder_datacenter_scope_witness:
  "get_folder manager0 ''DC0'' ''Shared'' vm None = Inr (Some ''v1'') \<and>
   parent_parent_name (content manager0) ''v1'' = Inr ''DC0'' \<and>
   objects (content manager0) ''w1'' = Some (mk_folder ''X'' vm_signature ''w0'') \<and>
   objects (content manager0) ''w0'' = Some (mk_folder ''vm'' vm_signature ''dc1'') \<and>
   objects (content manager0) ''dc1'' = Some (mk_datacenter ''DC1'' ''d0'') \<and>
   ancestry (content manager0) 2 ''w1'' = [''w0'', ''dc1''] \<and>
   get_folder manager0 ''DC0'' ''X'' vm None = Inr None"
proof -
  have a: "get_folder manager0 ''DC0'' ''Shared'' vm None = Inr (Some ''v1'')"
    by code_simp
  have w1: "objects (content manager0) ''w1'' = Some (mk_folder ''X'' vm_signature ''w0'')"
    by code_simp
  have w0: "objects (content manager0) ''w0'' = Some (mk_folder ''vm'' vm_signature ''dc1'')"
    by code_simp
  have dc1: "objects (content manager0) ''dc1'' = Some (mk_datacenter ''DC1'' ''d0'')"
    by code_simp
  have chain: "ancestry (content manager0) 2 ''w1'' = [''w0'', ''dc1'']"
    by code_simp
  have root: "objects (content manager0) (datacenter_folder_type manager0 vm) = Some (mk_folder ''vm'' vm_signature ''dc0'')"
    by code_simp
  have others: "\<forall>m \<in> set (get_all_objs (content manager0) [Folder] None).
       \<exists>obj. objects (content manager0) m = Some obj \<and>
         (name obj = ''X'' \<and> childType obj = childType (mk_folder ''vm'' vm_signature ''dc0'') \<longrightarrow>
            (\<exists>p pobj d dobj. parent obj = Some p \<and> objects (content manager0) p = Some pobj \<and>
               parent pobj = Some d \<and> objects (content manager0) d = Some dobj \<and>
               name dobj \<noteq> ''DC0''))"
    unfolding folders_manager0 objects_manager0
    by (simp add: inventory0_def mk_folder_def mk_datacenter_def)
  have only: "\<forall>m \<in> set (get_all_objs (content manager0) [Folder] None).
       \<exists>obj. objects (content manager0) m = Some obj \<and> (name obj = ''X'' \<longrightarrow> m = ''w1'')"
    unfolding folders_manager0 objects_manager0
    by (simp add: inventory0_def mk_folder_def mk_datacenter_def)
  have up: "2 \<le> length (ancestry (content manager0) 2 ''w1'') \<and>
      (\<exists>dobj. objects (content manager0) (last (ancestry (content manager0) 2 ''w1'')) = Some dobj \<and>
         vimtype dobj = Datacenter) \<and>
      (\<forall>a \<in> set (ancestry (content manager0) 2 ''w1'').
         \<exists>aobj. objects (content manager0) a = Some aobj \<and> name aobj \<noteq> ''DC0'')"
    unfolding chain by (simp add: w0 dc1 mk_folder_def mk_datacenter_def)
  have chains: "\<forall>m \<in> set (get_all_objs (content manager0) [Folder] None).
       \<exists>obj. objects (content manager0) m = Some obj \<and>
         (name obj = ''X'' \<and> childType obj = childType (mk_folder ''vm'' vm_signature ''dc0'') \<longrightarrow>
            (\<exists>n. 2 \<le> length (ancestry (content manager0) n m) \<and>
               (\<exists>dobj. objects (content manager0) (last (ancestry (content manager0) n m)) = Some dobj \<and>
                  vimtype dobj = Datacenter) \<and>
               (\<forall>a \<in> set (ancestry (content manager0) n m).
                  \<exists>aobj. objects (content manager0) a = Some aobj \<and> name aobj \<noteq> ''DC0'')))"
    using only up by blast
  note t = get_folder_datacenter_scope [of manager0 "''DC0''" _ vm _ "mk_folder ''vm'' vm_signature ''dc0''"]
  from t [of "''Shared''" "''v1''"] a have b: "parent_parent_name (content manager0) ''v1'' = Inr ''DC0''"
    by blast
  from t [of "''X''" "''v1''"] root others have c: "get_folder manager0 ''DC0'' ''X'' vm None = Inr None"
    by blast
  from t [of "''X''" "''v1''"] root chains have c': "get_folder manager0 ''DC0'' ''X'' vm None = Inr None"
    by blast
  from a b w1 w0 dc1 chain c c' show ?thesis by blast
qed

subsection \<open>How deep a lookup by name only reaches\<close>

text \<open>
  Claim C10, as the claim states it, fails: the guard of \<^verbatim>\<open>get_folder\<close> compares the
  name of the object two levels up with the datacenter name, not the object with the
  datacenter. In the second example inventory the vm folder \<^verbatim>\<open>v5\<close> bears the name of
  the datacenter, and the lookup of \<^verbatim>\<open>Y\<close> by name only returns \<^verbatim>\<open>v7\<close>, which lies at
  \<^verbatim>\<open>DC0/vm/DC0/sub/Y\<close>, three levels below the category root \<^verbatim>\<open>v0\<close>.
\<close>

theorem get_folder_name_only_depth_counterexample:
  "get_folder manager1 ''DC0'' ''Y'' vm None = Inr (Some ''v7'') \<and>
   ancestors inventory1 (length inventory1) ''v7'' = [''v6'', ''v5'', ''v0'', ''dc0'', ''d0''] \<and>
   datacenter_folder_type manager1 vm = ''v0'' \<and>
   grandparent (content manager1) ''v7'' = Some ''v5'' \<and>
   objects (content manager1) ''v5'' = Some (mk_folder ''DC0'' vm_signature ''v0'')"
  by code_simp

text \<open>
  Claim C10, amended. With no parent folder, \<^verbatim>\<open>get_folder\<close> returns a folder only if
  the object two parent levels up from it bears the requested datacenter name. When the
  datacenter node \<open>dc\<close> is the only object of the inventory that bears this name, the
  parent's parent of a returned folder is the datacenter node itself, and a folder whose
  parent's parent is another object (a folder nested deeper) is never returned.
\<close>

theorem get_folder_name_only_depth:
  "(get_folder self datacenter_name folder_name folder_type None = Inr (Some f) \<longrightarrow>
      (\<exists>g gobj. grandparent (content self) f = Some g \<and> objects (content self) g = Some gobj \<and>
         name gobj = datacenter_name)) \<and>
   ((\<forall>m obj. objects (content self) m = Some obj \<and> name obj = datacenter_name \<longrightarrow> m = dc) \<longrightarrow>
      (get_folder self datacenter_name folder_name folder_type None = Inr (Some f) \<longrightarrow>
         grandparent (content self) f = Some dc) \<and>
      (\<forall>n. grandparent (content self) n \<noteq> Some dc \<longrightarrow>
         get_folder self datacenter_name folder_name folder_type None \<noteq> Inr (Some n)))"
proof -
  have up: "\<exists>g gobj. grandparent (content self) x = Some g \<and> objects (content self) g = Some gobj \<and>
         name gobj = datacenter_name"
    if "get_folder self datacenter_name folder_name folder_type None = Inr (Some x)" for x
  proof -
    from that have "folder_matches self datacenter_name folder_name folder_type None x = Inr True"
      by (simp add: get_folder_Some)
    then have "parent_parent_name (content self) x = Inr datacenter_name"
      unfolding folder_matches_True by blast
    then show ?thesis
      by (auto simp: parent_parent_name_Inr grandparent_Some)
  qed
  have only: "grandparent (content self) x = Some dc"
    if "get_folder self datacenter_name folder_name folder_type None = Inr (Some x)"
      and "\<forall>m obj. objects (content self) m = Some obj \<and> name obj = datacenter_name \<longrightarrow> m = dc"
    for x
    using up [OF that(1)] that(2) by auto
  show ?thesis
    using up only by blast
qed

theorem get_folder_name_only_depth_witness:
  "get_folder manager0 ''DC0'' ''Shared'' vm None = Inr (Some ''v1'') \<and>
   grandparent (content manager0) ''v1'' = Some ''dc0'' \<and>
   grandparent (content manager0) ''v3'' \<noteq> Some ''dc0'' \<and>
   get_folder manager0 ''DC0'' ''tier2'' vm None \<noteq> Inr (Some ''v3'')"
proof -
  have a: "get_folder manager0 ''DC0'' ''Shared'' vm None = Inr (Some ''v1'')"
    by code_simp
  have deep: "grandparent (content manager0) ''v3'' \<noteq> Some ''dc0''"
    by code_simp
  have only: "\<forall>m obj. objects (content manager0) m = Some obj \<and> name obj = ''DC0'' \<longrightarrow> m = ''dc0''"
    unfolding objects_manager0
    by (simp add: inventory0_def mk_folder_def mk_datacenter_def)
  from get_folder_name_only_depth [of manager0 "''DC0''" "''Shared''" vm "''v1''" "''dc0''"] a only
  have b: "grandparent (content manager0) ''v1'' = Some ''dc0''"
    by blast
  from get_folder_name_only_depth [of manager0 "''DC0''" "''tier2''" vm "''v3''" "''dc0''"] only deep
  have c: "get_folder manager0 ''DC0'' ''tier2'' vm None \<noteq> Inr (Some ''v3'')"
    by blast
  from a b deep c show ?thesis by blast
qed

section \<open>Properties of \<^verbatim>\<open>ensure\<close>\<close>

subsection \<open>The walk along a parent path\<close>

lemma foldl_Inl:
  "foldl (\<lambda>acc segment. case acc of Inl out \<Rightarrow> Inl out | Inr anchor \<Rightarrow> f anchor segment) (Inl out) segments
     = Inl out"
  by (induction segments) auto

lemma walk_parts_foldl:
  "walk_parts self segments a =
     foldl (\<lambda>acc segment. case acc of Inl out \<Rightarrow> Inl out | Inr anchor \<Rightarrow> resolve_segment self anchor segment)
       (Inr a) segments"
proof (induction segments arbitrary: a)
  case Nil
  show ?case by simp
next
  case (Cons segment segments)
  show ?case
  proof (cases "get_folder self (p_datacenter (params self)) segment (p_folder_type (params self)) a")
    case (Inl e)
    then show ?thesis
      by (simp add: resolve_segment_def foldl_Inl)
  next
    case (Inr found)
    then show ?thesis
      by (cases found) (simp_all add: resolve_segment_def foldl_Inl Cons.IH)
  qed
qed

lemma walk_parts_append:
  "walk_parts self (xs @ ys) a =
     (case walk_parts self xs a of Inl out \<Rightarrow> Inl out | Inr b \<Rightarrow> walk_parts self ys b)"
  by (induction xs arbitrary: a) (auto split: sum.splits option.splits)

lemma walk_parts_break:
  assumes "walk_parts self pre None = Inr a"
    and "get_folder self (p_datacenter (params self)) x (p_folder_type (params self)) a = Inr None"
  shows "walk_parts self (pre @ x # post) None = Inl (fail_json (''Could not find folder '' @ x))"
  using assms by (simp add: walk_parts_append)

lemma walk_parts_sequential:
  "walk_parts self segments None = sequential_resolution self segments"
  by (simp add: walk_parts_foldl sequential_resolution_def)

text \<open>
  Claim C1. The loop over the segments of a parent path computes what the sequential
  resolution of the spec computes, for every list of segments: each segment is looked up
  as one name under the folder found for the segment before it. When the parent path
  contains a slash, the lookups of either state are this sequential resolution of the
  segments of the path, after its leading and trailing slashes are dropped, followed by
  the lookup of the target under the folder it gives. When these segments are
  \<open>pre @ x # post\<close>, the segments \<open>pre\<close> resolve and \<open>x\<close> does not, then \<^verbatim>\<open>ensure\<close> fails
  with the message that names \<open>x\<close>, whatever \<open>post\<close> is, for either state, and no call
  reaches the server.
\<close>

theorem path_walk_sequential:
  "walk_parts self segments None = sequential_resolution self segments \<and>
   (py_str (p_parent_folder_moid (params self)) = None \<and>
    p_parent_folder (params self) = Some pf \<and> CHR ''/'' \<in> set pf \<longrightarrow>
    absent_lookup self =
      (case sequential_resolution self (split CHR ''/'' (strip CHR ''/'' pf)) of
         Inl out \<Rightarrow> Inl out
       | Inr anchor \<Rightarrow>
           (case get_folder self (p_datacenter (params self)) (p_folder_name (params self))
                   (p_folder_type (params self)) anchor of
              Inl e \<Rightarrow> Inl (uncaught e)
            | Inr folder_obj \<Rightarrow> Inr (Some pf, folder_obj))) \<and>
    present_lookup self =
      (case sequential_resolution self (split CHR ''/'' (strip CHR ''/'' pf)) of
         Inl out \<Rightarrow> Inl out
       | Inr anchor \<Rightarrow>
           (case get_folder self (p_datacenter (params self)) (p_folder_name (params self))
                   (p_folder_type (params self)) anchor of
              Inl e \<Rightarrow> Inl (uncaught e)
            | Inr (Some child_folder_obj) \<Rightarrow>
                Inl (exit_json \<lparr>changed = False,
                  result = result_str (''Folder '' @ p_folder_name (params self)
                             @ '' already exists under parent folder '' @ pf),
                  msg = None\<rparr>)
            | Inr None \<Rightarrow> Inr (Some pf, anchor)))) \<and>
   (py_str (p_parent_folder_moid (params self)) = None \<and>
    p_parent_folder (params self) = Some pf \<and> CHR ''/'' \<in> set pf \<and>
    split CHR ''/'' (strip CHR ''/'' pf) = pre @ x # post \<and>
    sequential_resolution self pre = Inr a \<and>
    get_folder self (p_datacenter (params self)) x (p_folder_type (params self)) a = Inr None \<longrightarrow>
    ensure self = (fail_json (''Could not find folder '' @ x), []))"
proof (intro conjI impI)
  show "walk_parts self segments None = sequential_resolution self segments"
    by (rule walk_parts_sequential)
next
  assume h: "py_str (p_parent_folder_moid (params self)) = None \<and>
    p_parent_folder (params self) = Some pf \<and> CHR ''/'' \<in> set pf"
  then have pf: "py_str (p_parent_folder (params self)) = Some pf"
    by auto
  from h pf show "absent_lookup self =
      (case sequential_resolution self (split CHR ''/'' (strip CHR ''/'' pf)) of
         Inl out \<Rightarrow> Inl out
       | Inr anchor \<Rightarrow>
           (case get_folder self (p_datacenter (params self)) (p_folder_name (params self))
                   (p_folder_type (params self)) anchor of
              Inl e \<Rightarrow> Inl (uncaught e)
            | Inr folder_obj \<Rightarrow> Inr (Some pf, folder_obj)))"
    by (simp add: absent_lookup_def walk_parts_sequential)
  from h pf show "present_lookup self =
      (case sequential_resolution self (split CHR ''/'' (strip CHR ''/'' pf)) of
         Inl out \<Rightarrow> Inl out
       | Inr anchor \<Rightarrow>
           (case get_folder self (p_datacenter (params self)) (p_folder_name (params self))
                   (p_folder_type (params self)) anchor of
              Inl e \<Rightarrow> Inl (uncaught e)
            | Inr (Some child_folder_obj) \<Rightarrow>
                Inl (exit_json \<lparr>changed = False,
                  result = result_str (''Folder '' @ p_folder_name (params self)
                             @ '' already exists under parent folder '' @ pf),
                  msg = None\<rparr>)
            | Inr None \<Rightarrow> Inr (Some pf, anchor)))"
    by (simp add: present_lookup_def walk_parts_sequential results0_def
        split: sum.splits option.splits)
next
  assume h: "py_str (p_parent_folder_moid (params self)) = None \<and>
    p_parent_folder (params self) = Some pf \<and> CHR ''/'' \<in> set pf \<and>
    split CHR ''/'' (strip CHR ''/'' pf) = pre @ x # post \<and>
    sequential_resolution self pre = Inr a \<and>
    get_folder self (p_datacenter (params self)) x (p_folder_type (params self)) a = Inr None"
  then have "walk_parts self pre None = Inr a"
    by (simp add: walk_parts_sequential)
  with h have broken: "walk_parts self (split CHR ''/'' (strip CHR ''/'' pf)) None
      = Inl (fail_json (''Could not find folder '' @ x))"
    by (simp add: walk_parts_break)
  from h have pf: "py_str (p_parent_folder (params self)) = Some pf"
    by auto
  show "ensure self = (fail_json (''Could not find folder '' @ x), [])"
  proof (cases "p_state (params self)")
    case present
    with h pf broken show ?thesis
      by (simp add: ensure_def present_lookup_def)
  next
    case absent
    with h pf broken show ?thesis
      by (simp add: ensure_def absent_lookup_def)
  qed
qed

text \<open>
  On the example inventory the path \<^verbatim>\<open>/tier1/x/tier3/\<close> breaks at \<^verbatim>\<open>x\<close>, and the
  segments of \<^verbatim>\<open>tier1/tier2/tier3\<close> resolve to the folder \<^verbatim>\<open>v4\<close>.
\<close>

theorem path_walk_sequential_witness:
  "py_str (p_parent_folder_moid (params manager_broken_path)) = None \<and>
   p_parent_folder (params manager_broken_path) = Some ''/tier1/x/tier3/'' \<and>
   split CHR ''/'' (strip CHR ''/'' ''/tier1/x/tier3/'') = [''tier1''] @ ''x'' # [''tier3''] \<and>
   sequential_resolution manager_broken_path [''tier1''] = Inr (Some ''v2'') \<and>
   get_folder manager_broken_path ''DC0'' ''x'' vm (Some ''v2'') = Inr None \<and>
   ensure manager_broken_path = (fail_json ''Could not find folder x'', []) \<and>
   walk_parts manager_broken_path [''tier1'', ''tier2'', ''tier3''] None = Inr (Some ''v4'') \<and>
   sequential_resolution manager_broken_path [''tier1'', ''tier2'', ''tier3''] = Inr (Some ''v4'')"
proof -
  have a: "py_str (p_parent_folder_moid (params manager_broken_path)) = None"
    by code_simp
  have b: "p_parent_folder (params manager_broken_path) = Some ''/tier1/x/tier3/''"
    by code_simp
  have c: "CHR ''/'' \<in> set ''/tier1/x/tier3/''"
    by simp
  have d: "split CHR ''/'' (strip CHR ''/'' ''/tier1/x/tier3/'') = [''tier1''] @ ''x'' # [''tier3'']"
    by code_simp
  have e: "sequential_resolution manager_broken_path [''tier1''] = Inr (Some ''v2'')"
    by code_simp
  have dc: "p_datacenter (params manager_broken_path) = ''DC0''"
    by code_simp
  have ft: "p_folder_type (params manager_broken_path) = vm"
    by code_simp
  have f: "get_folder manager_broken_path ''DC0'' ''x'' vm (Some ''v2'') = Inr None"
    by code_simp
  have g: "walk_parts manager_broken_path [''tier1'', ''tier2'', ''tier3''] None = Inr (Some ''v4'')"
    by code_simp
  note t = path_walk_sequential [of manager_broken_path _ "''/tier1/x/tier3/''" "[''tier1'']" "''x''"
      "[''tier3'']" "Some ''v2''"]
  from t a b c d e f dc ft
  have h: "ensure manager_broken_path = (fail_json (''Could not find folder '' @ ''x''), [])"
    by simp
  from t [of "[''tier1'', ''tier2'', ''tier3'']"] g
  have i: "sequential_resolution manager_broken_path [''tier1'', ''tier2'', ''tier3''] = Inr (Some ''v4'')"
    by simp
  from a b d e f g h i show ?thesis by simp
qed

subsection \<open>What the lookups hand over\<close>

lemma py_str_Some: "py_str x = Some s \<longleftrightarrow> x = Some s \<and> s \<noteq> []"
  by (cases x) auto

lemma split_not_Nil: "split c s \<noteq> []"
  by (induction s) (auto split: list.splits)

lemma walk_parts_from_Some:
  "walk_parts self segments (Some f) = Inr b \<Longrightarrow> b \<noteq> None"
  by (induction segments arbitrary: f) (auto split: sum.splits option.splits)

lemma walk_parts_found:
  "segments \<noteq> [] \<Longrightarrow> walk_parts self segments a = Inr b \<Longrightarrow> b \<noteq> None"
  by (cases segments) (auto split: sum.splits option.splits dest: walk_parts_from_Some)

text \<open>
  What the lookups of the present branch hand over to the creation: no parent object and
  a parent parameter that is false, or a parent object with a parent parameter, or a
  parent id, that is true.
\<close>

lemma present_lookup_Inr:
  assumes "present_lookup self = Inr (parent_folder, p_folder_obj)"
  shows "(p_folder_obj = None \<and> \<not> truthy parent_folder) \<or>
         (\<exists>p. p_folder_obj = Some p \<and>
            (if truthy (p_parent_folder_moid (params self))
             then \<exists>n. attr_name (content self) p = Inr n
             else truthy parent_folder))"
proof (cases "py_str (p_parent_folder_moid (params self))")
  case (Some moid)
  with assms show ?thesis
    by (auto simp: present_lookup_def truthy_def Let_def py_str_Some split: sum.splits option.splits)
next
  case None
  note no_moid = this
  show ?thesis
  proof (cases "py_str (p_parent_folder (params self))")
    case None
    with assms no_moid show ?thesis
      by (auto simp: present_lookup_def truthy_def Let_def split: sum.splits option.splits if_splits)
  next
    case (Some pf)
    show ?thesis
    proof (cases "CHR ''/'' \<in> set pf")
      case True
      with assms no_moid Some show ?thesis
        by (auto simp: present_lookup_def truthy_def Let_def py_str_Some split_not_Nil
            split: sum.splits option.splits dest!: walk_parts_found [rotated])
    next
      case False
      with assms no_moid Some show ?thesis
        by (auto simp: present_lookup_def truthy_def Let_def py_str_Some split: sum.splits option.splits)
    qed
  qed
qed

subsection \<open>Faults of the creation\<close>

lemma try_create_fault:
  assumes look: "present_lookup self = Inr (parent_folder, p_folder_obj)"
    and real: "\<not> check_mode self"
    and anchor: "anchor = (case p_folder_obj of Some p \<Rightarrow> p
                   | None \<Rightarrow> datacenter_folder_type self (p_folder_type (params self)))"
    and fault: "CreateFolder (content self) anchor (p_folder_name (params self)) = Inl e"
  shows "try_create self parent_folder p_folder_obj =
           (Inl e, [CreateFolder_call anchor (p_folder_name (params self))])"
proof -
  from present_lookup_Inr [OF look] show ?thesis
  proof (elim disjE conjE exE)
    assume "p_folder_obj = None" and "\<not> truthy parent_folder"
    with real anchor fault show ?thesis
      by (simp add: try_create_def Let_def)
  next
    fix p
    assume p: "p_folder_obj = Some p"
      and given: "if truthy (p_parent_folder_moid (params self))
             then \<exists>n. attr_name (content self) p = Inr n
             else truthy parent_folder"
    show ?thesis
    proof (cases "truthy (p_parent_folder_moid (params self))")
      case True
      with given obtain n where "attr_name (content self) p = Inr n"
        by auto
      with True p real anchor fault show ?thesis
        by (simp add: try_create_def Let_def)
    next
      case False
      with given have "truthy parent_folder"
        by simp
      with False p real anchor fault show ?thesis
        by (simp add: try_create_def Let_def)
    qed
  qed
qed

text \<open>
  Claim C5. Take a run with state \<^verbatim>\<open>present\<close>, outside check mode, whose lookups did
  not find the target, so that the folder is created under the anchor: the parent
  object, or the root folder of the category when there is none. When \<^verbatim>\<open>CreateFolder\<close>
  raises \<^verbatim>\<open>DuplicateName\<close>, the run ends in \<^verbatim>\<open>exit_json\<close> with \<^verbatim>\<open>changed\<close> false and
  a message; when it raises \<^verbatim>\<open>InvalidName\<close> or any other exception, the run ends in
  \<^verbatim>\<open>fail_json\<close>. The one call made is the \<^verbatim>\<open>CreateFolder\<close> that raised.
\<close>

theorem create_fault_handling:
  "p_state (params self) = present \<and> \<not> check_mode self \<and>
   present_lookup self = Inr (parent_folder, p_folder_obj) \<and>
   anchor = (case p_folder_obj of Some p \<Rightarrow> p
             | None \<Rightarrow> datacenter_folder_type self (p_folder_type (params self))) \<and>
   CreateFolder (content self) anchor (p_folder_name (params self)) = Inl e \<longrightarrow>
     (case e of
        DuplicateName m \<Rightarrow>
          ensure self =
            (exit_json \<lparr>changed = False, result = result_dict None None,
               msg = Some (''Failed to create folder as another object has same name''
                           @ '' in the same target folder : '' @ m)\<rparr>,
             [CreateFolder_call anchor (p_folder_name (params self))])
      | InvalidName m \<Rightarrow>
          ensure self =
            (fail_json (''Failed to create folder as folder name is not a valid ''
                        @ ''entity name : '' @ m),
             [CreateFolder_call anchor (p_folder_name (params self))])
      | _ \<Rightarrow>
          ensure self =
            (fail_json (''Failed to create folder due to generic''
                        @ '' exception : '' @ to_native e @ '' ''),
             [CreateFolder_call anchor (p_folder_name (params self))]))"
proof (intro impI)
  assume h: "p_state (params self) = present \<and> \<not> check_mode self \<and>
   present_lookup self = Inr (parent_folder, p_folder_obj) \<and>
   anchor = (case p_folder_obj of Some p \<Rightarrow> p
             | None \<Rightarrow> datacenter_folder_type self (p_folder_type (params self))) \<and>
   CreateFolder (content self) anchor (p_folder_name (params self)) = Inl e"
  then have "try_create self parent_folder p_folder_obj =
           (Inl e, [CreateFolder_call anchor (p_folder_name (params self))])"
    using try_create_fault [of self parent_folder p_folder_obj anchor e] by blast
  with h have "ensure self = (create_exception e, [CreateFolder_call anchor (p_folder_name (params self))])"
    by (simp add: ensure_def create_folder_def)
  then show "case e of
        DuplicateName m \<Rightarrow>
          ensure self =
            (exit_json \<lparr>changed = False, result = result_dict None None,
               msg = Some (''Failed to create folder as another object has same name''
                           @ '' in the same target folder : '' @ m)\<rparr>,
             [CreateFolder_call anchor (p_folder_name (params self))])
      | InvalidName m \<Rightarrow>
          ensure self =
            (fail_json (''Failed to create folder as folder name is not a valid ''
                        @ ''entity name : '' @ m),
             [CreateFolder_call anchor (p_folder_name (params self))])
      | _ \<Rightarrow>
          ensure self =
            (fail_json (''Failed to create folder due to generic''
                        @ '' exception : '' @ to_native e @ '' ''),
             [CreateFolder_call anchor (p_folder_name (params self))])"
    by (cases e) (simp_all add: results0_def)
qed

text \<open>
  On the example inventory: a duplicate name at the vm root, an invalid name under
  \<^verbatim>\<open>tier1\<close>, and another exception under the parent with the id \<^verbatim>\<open>v3\<close>.
\<close>

theorem create_fault_handling_witness:
  "p_state (params manager_duplicate) = present \<and> \<not> check_mode manager_duplicate \<and>
   present_lookup manager_duplicate = Inr (None, None) \<and>
   CreateFolder (content manager_duplicate) ''v0'' ''Finance'' = Inl (DuplicateName ''Finance'') \<and>
   ensure manager_duplicate =
     (exit_json \<lparr>changed = False, result = result_dict None None,
        msg = Some ''Failed to create folder as another object has same name in the same target folder : Finance''\<rparr>,
      [CreateFolder_call ''v0'' ''Finance'']) \<and>
   present_lookup manager_invalid = Inr (Some ''tier1'', Some ''v2'') \<and>
   CreateFolder (content manager_invalid) ''v2'' ''bad%name'' = Inl (InvalidName ''bad%name'') \<and>
   ensure manager_invalid =
     (fail_json ''Failed to create folder as folder name is not a valid entity name : bad%name'',
      [CreateFolder_call ''v2'' ''bad%name'']) \<and>
   present_lookup manager_boom = Inr (Some ''tier2'', Some ''v3'') \<and>
   CreateFolder (content manager_boom) ''v3'' ''boom'' = Inl (OtherException ''connection lost'') \<and>
   ensure manager_boom =
     (fail_json ''Failed to create folder due to generic exception : connection lost '',
      [CreateFolder_call ''v3'' ''boom''])"
proof -
  have a1: "p_state (params manager_duplicate) = present" by code_simp
  have a2: "\<not> check_mode manager_duplicate" by code_simp
  have a3: "present_lookup manager_duplicate = Inr (None, None)" by code_simp
  have a4: "''v0'' = (case None of Some p \<Rightarrow> p
      | None \<Rightarrow> datacenter_folder_type manager_duplicate (p_folder_type (params manager_duplicate)))"
    by code_simp
  have a5: "p_folder_name (params manager_duplicate) = ''Finance''" by code_simp
  have a6: "CreateFolder (content manager_duplicate) ''v0'' ''Finance'' = Inl (DuplicateName ''Finance'')"
    by code_simp
  from create_fault_handling [of manager_duplicate None None "''v0''" "DuplicateName ''Finance''"]
    a1 a2 a3 a4 a5 a6
  have a7: "ensure manager_duplicate =
     (exit_json \<lparr>changed = False, result = result_dict None None,
        msg = Some ''Failed to create folder as another object has same name in the same target folder : Finance''\<rparr>,
      [CreateFolder_call ''v0'' ''Finance''])"
    by simp
  have b1: "p_state (params manager_invalid) = present" by code_simp
  have b2: "\<not> check_mode manager_invalid" by code_simp
  have b3: "present_lookup manager_invalid = Inr (Some ''tier1'', Some ''v2'')" by code_simp
  have b5: "p_folder_name (params manager_invalid) = ''bad%name''" by code_simp
  have b6: "CreateFolder (content manager_invalid) ''v2'' ''bad%name'' = Inl (InvalidName ''bad%name'')"
    by code_simp
  from create_fault_handling [of manager_invalid "Some ''tier1''" "Some ''v2''" "''v2''" "InvalidName ''bad%name''"]
    b1 b2 b3 b5 b6
  have b7: "ensure manager_invalid =
     (fail_json ''Failed to create folder as folder name is not a valid entity name : bad%name'',
      [CreateFolder_call ''v2'' ''bad%name''])"
    by simp
  have c1: "p_state (params manager_boom) = present" by code_simp
  have c2: "\<not> check_mode manager_boom" by code_simp
  have c3: "present_lookup manager_boom = Inr (Some ''tier2'', Some ''v3'')" by code_simp
  have c5: "p_folder_name (params manager_boom) = ''boom''" by code_simp
  have c6: "CreateFolder (content manager_boom) ''v3'' ''boom'' = Inl (OtherException ''connection lost'')"
    by code_simp
  from create_fault_handling [of manager_boom "Some ''tier2''" "Some ''v3''" "''v3''" "OtherException ''connection lost''"]
    c1 c2 c3 c5 c6
  have c7: "ensure manager_boom =
     (fail_json ''Failed to create folder due to generic exception : connection lost '',
      [CreateFolder_call ''v3'' ''boom''])"
    by simp
  from a1 a2 a3 a6 a7 b3 b6 b7 c3 c6 c7 show ?thesis by blast
qed

subsection \<open>Check mode\<close>

lemma folder_matches_check_mode:
  "folder_matches (self\<lparr>check_mode := b\<rparr>) dc fn ft pf f = folder_matches self dc fn ft pf f"
  by (simp add: folder_matches_def split: option.splits)

lemma get_folder_loop_check_mode:
  "get_folder_loop (self\<lparr>check_mode := b\<rparr>) dc fn ft pf xs = get_folder_loop self dc fn ft pf xs"
  by (induction xs) (simp_all add: folder_matches_check_mode cong: sum.case_cong bool.case_cong)

lemma get_folder_check_mode:
  "get_folder (self\<lparr>check_mode := b\<rparr>) dc fn ft pf = get_folder self dc fn ft pf"
  by (simp add: get_folder_def get_folder_loop_check_mode)

lemma walk_parts_check_mode:
  "walk_parts (self\<lparr>check_mode := b\<rparr>) segments a = walk_parts self segments a"
  by (induction segments arbitrary: a)
    (simp_all add: get_folder_check_mode cong: sum.case_cong option.case_cong)

lemma present_lookup_check_mode:
  "present_lookup (self\<lparr>check_mode := b\<rparr>) = present_lookup self"
  by (simp add: present_lookup_def get_folder_check_mode walk_parts_check_mode Let_def
      cong: sum.case_cong option.case_cong if_cong)

lemma absent_lookup_check_mode:
  "absent_lookup (self\<lparr>check_mode := b\<rparr>) = absent_lookup self"
  by (simp add: absent_lookup_def get_folder_check_mode walk_parts_check_mode Let_def
      cong: sum.case_cong option.case_cong if_cong)

lemma destroy_and_wait_check_mode:
  "destroy_and_wait (self\<lparr>check_mode := b\<rparr>) f = destroy_and_wait self f"
  by (simp add: destroy_and_wait_def cong: sum.case_cong prod.case_cong if_cong)

lemma walk_parts_no_exit: "walk_parts self segments a \<noteq> Inl (exit_json r)"
  by (induction segments arbitrary: a) (auto split: sum.splits option.splits)

lemma moid_exception_no_exit: "moid_exception m e \<noteq> exit_json r"
  by (cases e) simp_all

lemma absent_lookup_no_exit:
  "absent_lookup self \<noteq> Inl (exit_json r)"
  by (auto simp: absent_lookup_def Let_def walk_parts_no_exit moid_exception_no_exit
      split: option.splits sum.splits if_splits)

lemma present_lookup_cases:
  assumes "present_lookup self = Inr (pf, pobj)"
  shows "(\<exists>m obj. py_str (p_parent_folder_moid (params self)) = Some m \<and> pobj = Some m \<and>
            objects (content self) m = Some obj \<and> pf = Some (name obj)) \<or>
         (\<exists>s p. py_str (p_parent_folder_moid (params self)) = None \<and>
            py_str (p_parent_folder (params self)) = Some s \<and> pf = Some s \<and> pobj = Some p) \<or>
         (py_str (p_parent_folder_moid (params self)) = None \<and>
            py_str (p_parent_folder (params self)) = None \<and>
            pf = p_parent_folder (params self) \<and> pobj = None)"
proof (cases "py_str (p_parent_folder_moid (params self))")
  case (Some moid)
  with assms show ?thesis
    by (auto simp: present_lookup_def Let_def attr_name_Inr split: sum.splits option.splits)
next
  case None
  note no_moid = this
  show ?thesis
  proof (cases "py_str (p_parent_folder (params self))")
    case None
    with assms no_moid show ?thesis
      by (auto simp: present_lookup_def Let_def split: sum.splits option.splits)
  next
    case (Some s)
    show ?thesis
    proof (cases "CHR ''/'' \<in> set s")
      case True
      with assms no_moid Some show ?thesis
        by (auto simp: present_lookup_def Let_def split_not_Nil
            split: sum.splits option.splits dest!: walk_parts_found [rotated])
    next
      case False
      with assms no_moid Some show ?thesis
        by (auto simp: present_lookup_def Let_def split: sum.splits option.splits)
    qed
  qed
qed

lemma absent_lookup_cases:
  assumes "absent_lookup self = Inr (pf, fobj)"
  shows "(\<exists>m obj. py_str (p_parent_folder_moid (params self)) = Some m \<and>
            objects (content self) m = Some obj \<and> pf = Some (name obj)) \<or>
         (\<exists>s. py_str (p_parent_folder_moid (params self)) = None \<and>
            py_str (p_parent_folder (params self)) = Some s \<and> pf = Some s) \<or>
         (py_str (p_parent_folder_moid (params self)) = None \<and>
            py_str (p_parent_folder (params self)) = None \<and>
            pf = p_parent_folder (params self))"
proof (cases "py_str (p_parent_folder_moid (params self))")
  case (Some moid)
  with assms show ?thesis
    by (auto simp: absent_lookup_def Let_def attr_name_Inr split: sum.splits option.splits)
next
  case None
  with assms show ?thesis
    by (cases "py_str (p_parent_folder (params self))")
      (auto simp: absent_lookup_def Let_def split: sum.splits option.splits if_splits)
qed

lemma py_str_nonempty: "py_str x = Some s \<Longrightarrow> s \<noteq> []"
  by (cases x) (auto split: if_splits)

lemma try_create_check_value:
  assumes chk: "check_mode self"
    and st: "p_state (params self) = present"
    and look: "present_lookup self = Inr (pf, pobj)"
  shows "try_create self pf pobj =
           (Inr (results0\<lparr>msg := Some (dry_run_message self), changed := True\<rparr>), [])"
  using present_lookup_cases [OF look]
proof (elim disjE exE conjE)
  fix m obj
  assume "py_str (p_parent_folder_moid (params self)) = Some m" "pobj = Some m"
    "objects (content self) m = Some obj" "pf = Some (name obj)"
  with chk st show ?thesis
    by (simp add: try_create_def Let_def truthy_def dry_run_message_def parent_label_def
        quoted_def attr_name_def fetch_def)
next
  fix s p
  assume "py_str (p_parent_folder_moid (params self)) = None"
    "py_str (p_parent_folder (params self)) = Some s" "pf = Some s" "pobj = Some p"
  with chk st show ?thesis
    by (auto simp: try_create_def Let_def truthy_def dry_run_message_def parent_label_def
        quoted_def dest: py_str_nonempty)
next
  assume "py_str (p_parent_folder_moid (params self)) = None"
    "py_str (p_parent_folder (params self)) = None"
    "pf = p_parent_folder (params self)" "pobj = None"
  with chk st show ?thesis
    by (simp add: try_create_def Let_def truthy_def dry_run_message_def parent_label_def
        quoted_def)
qed

lemma try_create_real_value:
  assumes real: "\<not> check_mode self"
    and look: "present_lookup self = Inr (pf, pobj)"
  shows "\<exists>anchor. snd (try_create self pf pobj) = [CreateFolder_call anchor (p_folder_name (params self))] \<and>
           (case CreateFolder (content self) anchor (p_folder_name (params self)) of
              Inl e \<Rightarrow> fst (try_create self pf pobj) = Inl e
            | Inr new_folder \<Rightarrow> (\<exists>res. fst (try_create self pf pobj) = Inr res \<and> changed res))"
  using present_lookup_cases [OF look]
proof (elim disjE exE conjE)
  fix m obj
  assume "py_str (p_parent_folder_moid (params self)) = Some m" "pobj = Some m"
    "objects (content self) m = Some obj" "pf = Some (name obj)"
  with real show ?thesis
    by (intro exI [of _ m])
      (simp add: try_create_def Let_def truthy_def attr_name_def fetch_def split: sum.splits)
next
  fix s p
  assume "py_str (p_parent_folder_moid (params self)) = None"
    "py_str (p_parent_folder (params self)) = Some s" "pf = Some s" "pobj = Some p"
  with real show ?thesis
    by (intro exI [of _ p])
      (auto simp: try_create_def Let_def truthy_def split: sum.splits dest: py_str_nonempty)
next
  assume "py_str (p_parent_folder_moid (params self)) = None"
    "py_str (p_parent_folder (params self)) = None"
    "pf = p_parent_folder (params self)" "pobj = None"
  with real show ?thesis
    by (intro exI [of _ "datacenter_folder_type self (p_folder_type (params self))"])
      (simp add: try_create_def Let_def truthy_def split: sum.splits)
qed

lemma try_remove_check_value:
  assumes chk: "check_mode self"
    and st: "p_state (params self) = absent"
    and look: "absent_lookup self = Inr (pf, fobj)"
  shows "try_remove self pf f =
           (Inr (results0\<lparr>changed := True, msg := Some (dry_run_message self)\<rparr>), [])"
  using absent_lookup_cases [OF look]
proof (elim disjE exE conjE)
  fix m obj
  assume "py_str (p_parent_folder_moid (params self)) = Some m"
    "objects (content self) m = Some obj" "pf = Some (name obj)"
  with chk st show ?thesis
    by (simp add: try_remove_def Let_def truthy_def dry_run_message_def parent_label_def quoted_def)
next
  fix s
  assume "py_str (p_parent_folder_moid (params self)) = None"
    "py_str (p_parent_folder (params self)) = Some s" "pf = Some s"
  with chk st show ?thesis
    by (auto simp: try_remove_def Let_def truthy_def dry_run_message_def parent_label_def quoted_def
        dest: py_str_nonempty)
next
  assume "py_str (p_parent_folder_moid (params self)) = None"
    "py_str (p_parent_folder (params self)) = None" "pf = p_parent_folder (params self)"
  with chk st show ?thesis
    by (simp add: try_remove_def Let_def truthy_def dry_run_message_def parent_label_def quoted_def)
qed

lemma present_lookup_exists:
  "present_lookup self = Inl (exit_json r) \<Longrightarrow> \<not> changed r \<and> exists_message self (result r)"
proof (cases "py_str (p_parent_folder_moid (params self))")
  case (Some moid)
  assume "present_lookup self = Inl (exit_json r)"
  with Some show ?thesis
    by (auto simp: present_lookup_def Let_def results0_def moid_exception_no_exit
        exists_message_def parent_label_def attr_name_Inr
        split: option.splits sum.splits)
next
  case None
  assume "present_lookup self = Inl (exit_json r)"
  with None show ?thesis
    by (cases "py_str (p_parent_folder (params self))")
      (auto simp: present_lookup_def Let_def results0_def walk_parts_no_exit
        exists_message_def parent_label_def
        split: option.splits sum.splits if_splits)
qed

lemma destroy_and_wait_calls:
  "snd (destroy_and_wait self f) \<noteq> [] \<and>
   ((\<exists>res. fst (destroy_and_wait self f) = Inr res \<and> changed res) \<longleftrightarrow>
      (\<forall>call \<in> set (snd (destroy_and_wait self f)). call_succeeds (content self) call))"
  by (auto simp: destroy_and_wait_def results0_def split: sum.splits prod.splits)

lemma create_exception_flag:
  "create_exception e \<noteq> exit_json r \<or> \<not> changed r"
  by (cases e) (auto simp: results0_def)

lemma remove_exception_no_exit: "remove_exception e \<noteq> exit_json r"
  by (cases e) simp_all

text \<open>
  Claim C4, as the claim states it, fails. In check mode the creation of \<^verbatim>\<open>Finance\<close>
  reports \<^verbatim>\<open>changed\<close> true; outside check mode the server answers the same request
  with \<^verbatim>\<open>DuplicateName\<close> and the run reports \<^verbatim>\<open>changed\<close> false. And a deletion in check
  mode of a folder that does not exist ends with no message at all.
\<close>

theorem check_mode_contract_counterexample:
  "check_mode manager_duplicate_check \<and>
   reported_changed (fst (ensure manager_duplicate_check)) = Some True \<and>
   snd (ensure manager_duplicate_check) = [] \<and>
   reported_changed (fst (ensure (manager_duplicate_check\<lparr>check_mode := False\<rparr>))) = Some False \<and>
   snd (ensure (manager_duplicate_check\<lparr>check_mode := False\<rparr>)) = [CreateFolder_call ''v0'' ''Finance''] \<and>
   check_mode manager_delete_missing_check \<and>
   ensure manager_delete_missing_check =
     (exit_json \<lparr>changed = False, result = result_dict None None, msg = None\<rparr>, [])"
  by code_simp

text \<open>
  Claim C4, amended. In check mode no call reaches the server, whatever the input. When
  the run ends in \<^verbatim>\<open>exit_json\<close>:
  \<^item> its \<^verbatim>\<open>changed\<close> flag is true exactly when the same input outside check mode issues
    a call (an action would be taken), and false when the desired state already holds;
  \<^item> the same input outside check mode ends in \<^verbatim>\<open>exit_json\<close> with the same flag exactly
    when every call it issues succeeds (the method returns, the awaited task ends in
    success);
  \<^item> when the flag is true the message is \<open>dry_run_message\<close>: it names the folder, its
    type, the parent when one is given, and says whether the folder will be created or
    removed;
  \<^item> when the flag is false and the state is \<^verbatim>\<open>present\<close>, the result reports that the
    folder already exists.
\<close>

theorem check_mode_contract:
  "check_mode self \<longrightarrow>
     snd (ensure self) = [] \<and>
     (\<forall>r. fst (ensure self) = exit_json r \<longrightarrow>
        (changed r \<longleftrightarrow> snd (ensure (self\<lparr>check_mode := False\<rparr>)) \<noteq> []) \<and>
        ((\<exists>r'. fst (ensure (self\<lparr>check_mode := False\<rparr>)) = exit_json r' \<and>
                changed r' = changed r) \<longleftrightarrow>
           (\<forall>call \<in> set (snd (ensure (self\<lparr>check_mode := False\<rparr>))).
              call_succeeds (content self) call)) \<and>
        (changed r \<longrightarrow> msg r = Some (dry_run_message self)) \<and>
        (\<not> changed r \<and> p_state (params self) = present \<longrightarrow>
           exists_message self (result r)))"
proof (intro impI)
  assume chk: "check_mode self"
  let ?real = "self\<lparr>check_mode := False\<rparr>"
  let ?goal = "snd (ensure self) = [] \<and>
     (\<forall>r. fst (ensure self) = exit_json r \<longrightarrow>
        (changed r \<longleftrightarrow> snd (ensure ?real) \<noteq> []) \<and>
        ((\<exists>r'. fst (ensure ?real) = exit_json r' \<and> changed r' = changed r) \<longleftrightarrow>
           (\<forall>call \<in> set (snd (ensure ?real)). call_succeeds (content self) call)) \<and>
        (changed r \<longrightarrow> msg r = Some (dry_run_message self)) \<and>
        (\<not> changed r \<and> p_state (params self) = present \<longrightarrow>
           exists_message self (result r)))"
  have real: "\<not> check_mode ?real" "content ?real = content self" "params ?real = params self"
    by simp_all
  show ?goal
  proof (cases "p_state (params self)")
    case present
    show ?thesis
    proof (cases "present_lookup self")
      case (Inl out)
      with present have "ensure self = (out, [])" "ensure ?real = (out, [])"
        by (simp_all add: ensure_def present_lookup_check_mode)
      with Inl show ?thesis
        by (auto dest: present_lookup_exists)
    next
      case (Inr cont)
      obtain pf pobj where cont: "cont = (pf, pobj)"
        by (cases cont)
      from Inr cont have look: "present_lookup self = Inr (pf, pobj)"
        by simp
      then have look': "present_lookup ?real = Inr (pf, pobj)"
        by (simp add: present_lookup_check_mode)
      from try_create_check_value [OF chk present look] present look
      have e: "ensure self =
          (exit_json (results0\<lparr>msg := Some (dry_run_message self), changed := True\<rparr>), [])"
        by (simp add: ensure_def create_folder_def)
      from try_create_real_value [OF real(1) look'] obtain anchor where
        calls: "snd (try_create ?real pf pobj) = [CreateFolder_call anchor (p_folder_name (params self))]"
        and answer: "case CreateFolder (content self) anchor (p_folder_name (params self)) of
              Inl e \<Rightarrow> fst (try_create ?real pf pobj) = Inl e
            | Inr new_folder \<Rightarrow> (\<exists>res. fst (try_create ?real pf pobj) = Inr res \<and> changed res)"
        by auto
      have e': "ensure ?real = create_folder ?real pf pobj"
        using present look' by (simp add: ensure_def)
      show ?thesis
      proof (cases "CreateFolder (content self) anchor (p_folder_name (params self))")
        case (Inl ex)
        with answer calls have "try_create ?real pf pobj =
            (Inl ex, [CreateFolder_call anchor (p_folder_name (params self))])"
          by (cases "try_create ?real pf pobj") simp
        with e' have "ensure ?real =
            (create_exception ex, [CreateFolder_call anchor (p_folder_name (params self))])"
          by (simp add: create_folder_def)
        with e Inl show ?thesis
          using create_exception_flag [of ex] by auto
      next
        case (Inr new_folder)
        with answer calls obtain res where "try_create ?real pf pobj =
            (Inr res, [CreateFolder_call anchor (p_folder_name (params self))])" "changed res"
          by (cases "try_create ?real pf pobj") auto
        with e' have "ensure ?real =
            (exit_json res, [CreateFolder_call anchor (p_folder_name (params self))])"
          by (simp add: create_folder_def)
        with e Inr \<open>changed res\<close> show ?thesis
          by auto
      qed
    qed
  next
    case absent
    show ?thesis
    proof (cases "absent_lookup self")
      case (Inl out)
      with absent have "ensure self = (out, [])"
        by (simp add: ensure_def)
      with Inl show ?thesis
        by (auto simp: absent_lookup_no_exit)
    next
      case (Inr cont)
      obtain pf fobj where cont: "cont = (pf, fobj)"
        by (cases cont)
      from Inr cont have look: "absent_lookup self = Inr (pf, fobj)"
        by simp
      then have look': "absent_lookup ?real = Inr (pf, fobj)"
        by (simp add: absent_lookup_check_mode)
      show ?thesis
      proof (cases fobj)
        case None
        with absent look look' have "ensure self = (exit_json results0, [])"
          "ensure ?real = (exit_json results0, [])"
          by (simp_all add: ensure_def remove_folder_def)
        with absent show ?thesis
          by (auto simp: results0_def)
      next
        case (Some f)
        from try_remove_check_value [OF chk absent look, of f] absent look Some
        have e: "ensure self =
            (exit_json (results0\<lparr>changed := True, msg := Some (dry_run_message self)\<rparr>), [])"
          by (simp add: ensure_def remove_folder_def)
        obtain tr calls where dw: "destroy_and_wait self f = (tr, calls)"
          by (cases "destroy_and_wait self f")
        have e': "ensure ?real =
            (case tr of Inr results \<Rightarrow> exit_json results | Inl e \<Rightarrow> remove_exception e, calls)"
          using absent look' Some dw
          by (simp add: ensure_def remove_folder_def try_remove_def Let_def
              destroy_and_wait_check_mode split: sum.splits)
        from destroy_and_wait_calls [of self f] dw
        have calls: "calls \<noteq> []"
          and ok: "(\<exists>res. tr = Inr res \<and> changed res) \<longleftrightarrow>
            (\<forall>call \<in> set calls. call_succeeds (content self) call)"
          by simp_all
        show ?thesis
        proof (cases tr)
          case (Inl ex)
          with e e' calls ok absent show ?thesis
            by (auto simp: remove_exception_no_exit)
        next
          case (Inr res)
          with e e' calls ok absent show ?thesis
            by auto
        qed
      qed
    qed
  qed
qed

text \<open>
  On the example inventory: the creation of \<^verbatim>\<open>tier4\<close> under \<^verbatim>\<open>tier1/tier2\<close> in check
  mode, and the request in check mode for \<^verbatim>\<open>tier2\<close>, which exists under \<^verbatim>\<open>tier1\<close>.
\<close>

theorem check_mode_contract_witness:
  "check_mode manager_check_create \<and>
   snd (ensure manager_check_create) = [] \<and>
   fst (ensure manager_check_create) =
     exit_json \<lparr>changed = True, result = result_dict None None,
       msg = Some (''Folder '' @ quoted ''tier4'' @ '' of type '' @ quoted ''vm''
                   @ '' under '' @ quoted ''tier1/tier2'' @ '' will be created.'')\<rparr> \<and>
   dry_run_message manager_check_create =
     ''Folder '' @ quoted ''tier4'' @ '' of type '' @ quoted ''vm''
     @ '' under '' @ quoted ''tier1/tier2'' @ '' will be created.'' \<and>
   snd (ensure (manager_check_create\<lparr>check_mode := False\<rparr>)) = [CreateFolder_call ''v3'' ''tier4''] \<and>
   call_succeeds (content manager_check_create) (CreateFolder_call ''v3'' ''tier4'') \<and>
   (\<exists>r'. fst (ensure (manager_check_create\<lparr>check_mode := False\<rparr>)) = exit_json r' \<and>
      changed r' = True) \<and>
   check_mode manager_found_check \<and>
   p_state (params manager_found_check) = present \<and>
   ensure manager_found_check =
     (exit_json \<lparr>changed = False,
        result = result_str ''Folder tier2 already exists under parent folder tier1'',
        msg = None\<rparr>, []) \<and>
   snd (ensure (manager_found_check\<lparr>check_mode := False\<rparr>)) = [] \<and>
   exists_message manager_found_check
     (result_str ''Folder tier2 already exists under parent folder tier1'')"
proof -
  have chk: "check_mode manager_check_create" by code_simp
  have ev: "fst (ensure manager_check_create) =
     exit_json \<lparr>changed = True, result = result_dict None None,
       msg = Some (''Folder '' @ quoted ''tier4'' @ '' of type '' @ quoted ''vm''
                   @ '' under '' @ quoted ''tier1/tier2'' @ '' will be created.'')\<rparr>"
    by code_simp
  have calls: "snd (ensure (manager_check_create\<lparr>check_mode := False\<rparr>)) = [CreateFolder_call ''v3'' ''tier4'']"
    by code_simp
  have ok: "call_succeeds (content manager_check_create) (CreateFolder_call ''v3'' ''tier4'')"
    by code_simp
  note t = check_mode_contract [of manager_check_create]
  from t chk have a: "snd (ensure manager_check_create) = []"
    by blast
  from t chk ev have m: "dry_run_message manager_check_create =
     ''Folder '' @ quoted ''tier4'' @ '' of type '' @ quoted ''vm''
     @ '' under '' @ quoted ''tier1/tier2'' @ '' will be created.''"
    by simp
  from t chk ev calls ok
  have same: "\<exists>r'. fst (ensure (manager_check_create\<lparr>check_mode := False\<rparr>)) = exit_json r' \<and>
      changed r' = True"
    by simp
  have chk2: "check_mode manager_found_check" by code_simp
  have st2: "p_state (params manager_found_check) = present" by code_simp
  have ev2: "ensure manager_found_check =
     (exit_json \<lparr>changed = False,
        result = result_str ''Folder tier2 already exists under parent folder tier1'',
        msg = None\<rparr>, [])"
    by code_simp
  note t2 = check_mode_contract [of manager_found_check]
  from t2 chk2 ev2 have none: "snd (ensure (manager_found_check\<lparr>check_mode := False\<rparr>)) = []"
    by simp
  from t2 chk2 st2 ev2 have ex: "exists_message manager_found_check
     (result_str ''Folder tier2 already exists under parent folder tier1'')"
    by simp
  from chk a ev m calls ok same chk2 st2 ev2 none ex show ?thesis
    by blast
qed

subsection \<open>Deletion\<close>

lemma try_remove_real:
  "\<not> check_mode self \<Longrightarrow> try_remove self parent_folder f = destroy_and_wait self f"
  by (simp add: try_remove_def Let_def)

lemma remove_exception_fails: "\<exists>m. remove_exception e = fail_json m"
  by (cases e) simp_all

lemma remove_folder_real:
  "\<not> check_mode self \<Longrightarrow>
     remove_folder self parent_folder (Some f) =
       (case destroy_and_wait self f of
          (Inr results, calls) \<Rightarrow> (exit_json results, calls)
        | (Inl e, calls) \<Rightarrow> (remove_exception e, calls))"
  by (simp add: remove_folder_def try_remove_real)

lemma destroy_and_wait_vm:
  "p_folder_type (params self) = vm \<Longrightarrow>
     destroy_and_wait self f =
       (case UnregisterAndDestroy (content self) f of
          Inl e \<Rightarrow> (Inl e, [UnregisterAndDestroy_call f])
        | Inr t \<Rightarrow>
            (case wait_for_task (content self) t of
               Inl e \<Rightarrow> (Inl e, [UnregisterAndDestroy_call f, wait_for_task_call t])
             | Inr (ch, m) \<Rightarrow>
                 (Inr \<lparr>changed = ch, result = result_dict None None, msg = Some m\<rparr>,
                  [UnregisterAndDestroy_call f, wait_for_task_call t])))"
  by (simp add: destroy_and_wait_def results0_def split: sum.splits prod.splits)

lemma destroy_and_wait_other:
  "p_folder_type (params self) \<noteq> vm \<Longrightarrow>
     destroy_and_wait self f =
       (case Destroy (content self) f of
          Inl e \<Rightarrow> (Inl e, [Destroy_call f])
        | Inr t \<Rightarrow>
            (case wait_for_task (content self) t of
               Inl e \<Rightarrow> (Inl e, [Destroy_call f, wait_for_task_call t])
             | Inr (ch, m) \<Rightarrow>
                 (Inr \<lparr>changed = ch, result = result_dict None None, msg = Some m\<rparr>,
                  [Destroy_call f, wait_for_task_call t])))"
  by (simp add: destroy_and_wait_def results0_def split: sum.splits prod.splits)

text \<open>
  Claim C8. Take a run with state \<^verbatim>\<open>absent\<close> whose lookups found the target \<open>f\<close>, outside
  check mode (in check mode nothing is deleted). For the category vm the run calls
  \<^verbatim>\<open>UnregisterAndDestroy\<close> on \<open>f\<close>, for every other category \<^verbatim>\<open>Destroy\<close>, and nothing
  else but the wait for the task that the call returned. The \<^verbatim>\<open>changed\<close> flag and the
  message of the run are the two values that the wait returns; an exception of the call
  or of the wait ends the run in \<^verbatim>\<open>fail_json\<close>. The wait is a collaborator of the module
  (\<^verbatim>\<open>wait_for_task\<close>): the model takes what it returns.
\<close>

theorem delete_found_uses_task:
  "p_state (params self) = absent \<and> absent_lookup self = Inr (parent_folder, Some f) \<and>
   \<not> check_mode self \<longrightarrow>
     (p_folder_type (params self) = vm \<longrightarrow>
        (case UnregisterAndDestroy (content self) f of
           Inl e \<Rightarrow> ensure self = (remove_exception e, [UnregisterAndDestroy_call f])
         | Inr t \<Rightarrow>
             (case wait_for_task (content self) t of
                Inl e \<Rightarrow> ensure self =
                  (remove_exception e, [UnregisterAndDestroy_call f, wait_for_task_call t])
              | Inr (ch, m) \<Rightarrow> ensure self =
                  (exit_json \<lparr>changed = ch, result = result_dict None None, msg = Some m\<rparr>,
                   [UnregisterAndDestroy_call f, wait_for_task_call t])))) \<and>
     (p_folder_type (params self) \<noteq> vm \<longrightarrow>
        (case Destroy (content self) f of
           Inl e \<Rightarrow> ensure self = (remove_exception e, [Destroy_call f])
         | Inr t \<Rightarrow>
             (case wait_for_task (content self) t of
                Inl e \<Rightarrow> ensure self =
                  (remove_exception e, [Destroy_call f, wait_for_task_call t])
              | Inr (ch, m) \<Rightarrow> ensure self =
                  (exit_json \<lparr>changed = ch, result = result_dict None None, msg = Some m\<rparr>,
                   [Destroy_call f, wait_for_task_call t])))) \<and>
     (\<forall>e. \<exists>m. remove_exception e = fail_json m)"
proof (intro impI conjI allI)
  assume h: "p_state (params self) = absent \<and> absent_lookup self = Inr (parent_folder, Some f) \<and>
   \<not> check_mode self"
  then have e: "ensure self =
      (case destroy_and_wait self f of
         (Inr results, calls) \<Rightarrow> (exit_json results, calls)
       | (Inl e, calls) \<Rightarrow> (remove_exception e, calls))"
    by (simp add: ensure_def remove_folder_real)
  {
    assume "p_folder_type (params self) = vm"
    then show "case UnregisterAndDestroy (content self) f of
           Inl e \<Rightarrow> ensure self = (remove_exception e, [UnregisterAndDestroy_call f])
         | Inr t \<Rightarrow>
             (case wait_for_task (content self) t of
                Inl e \<Rightarrow> ensure self =
                  (remove_exception e, [UnregisterAndDestroy_call f, wait_for_task_call t])
              | Inr (ch, m) \<Rightarrow> ensure self =
                  (exit_json \<lparr>changed = ch, result = result_dict None None, msg = Some m\<rparr>,
                   [UnregisterAndDestroy_call f, wait_for_task_call t]))"
      unfolding e by (simp add: destroy_and_wait_vm split: sum.splits prod.splits)
  }
  {
    assume "p_folder_type (params self) \<noteq> vm"
    then show "case Destroy (content self) f of
           Inl e \<Rightarrow> ensure self = (remove_exception e, [Destroy_call f])
         | Inr t \<Rightarrow>
             (case wait_for_task (content self) t of
                Inl e \<Rightarrow> ensure self =
                  (remove_exception e, [Destroy_call f, wait_for_task_call t])
              | Inr (ch, m) \<Rightarrow> ensure self =
                  (exit_json \<lparr>changed = ch, result = result_dict None None, msg = Some m\<rparr>,
                   [Destroy_call f, wait_for_task_call t]))"
      unfolding e by (simp add: destroy_and_wait_other split: sum.splits prod.splits)
  }
next
  fix e show "\<exists>m. remove_exception e = fail_json m"
    by (rule remove_exception_fails)
qed

theorem delete_found_uses_task_witness:
  "p_state (params manager_delete_vm) = absent \<and>
   absent_lookup manager_delete_vm = Inr (Some ''tier2'', Some ''v4'') \<and>
   \<not> check_mode manager_delete_vm \<and>
   p_folder_type (params manager_delete_vm) = vm \<and>
   UnregisterAndDestroy (content manager_delete_vm) ''v4'' = Inr ''task-1'' \<and>
   wait_for_task (content manager_delete_vm) ''task-1'' = Inr (True, ''done'') \<and>
   ensure manager_delete_vm =
     (exit_json \<lparr>changed = True, result = result_dict None None, msg = Some ''done''\<rparr>,
      [UnregisterAndDestroy_call ''v4'', wait_for_task_call ''task-1'']) \<and>
   p_state (params manager_delete_network) = absent \<and>
   absent_lookup manager_delete_network = Inr (None, Some ''n1'') \<and>
   \<not> check_mode manager_delete_network \<and>
   p_folder_type (params manager_delete_network) \<noteq> vm \<and>
   Destroy (content manager_delete_network) ''n1'' = Inr ''task-1'' \<and>
   wait_for_task (content manager_delete_network) ''task-1'' = Inr (True, ''done'') \<and>
   ensure manager_delete_network =
     (exit_json \<lparr>changed = True, result = result_dict None None, msg = Some ''done''\<rparr>,
      [Destroy_call ''n1'', wait_for_task_call ''task-1''])"
proof -
  have a1: "p_state (params manager_delete_vm) = absent" by code_simp
  have a2: "absent_lookup manager_delete_vm = Inr (Some ''tier2'', Some ''v4'')" by code_simp
  have a3: "\<not> check_mode manager_delete_vm" by code_simp
  have a4: "p_folder_type (params manager_delete_vm) = vm" by code_simp
  have a5: "UnregisterAndDestroy (content manager_delete_vm) ''v4'' = Inr ''task-1''" by code_simp
  have a6: "wait_for_task (content manager_delete_vm) ''task-1'' = Inr (True, ''done'')" by code_simp
  from delete_found_uses_task [of manager_delete_vm "Some ''tier2''" "''v4''"] a1 a2 a3 a4 a5 a6
  have a7: "ensure manager_delete_vm =
     (exit_json \<lparr>changed = True, result = result_dict None None, msg = Some ''done''\<rparr>,
      [UnregisterAndDestroy_call ''v4'', wait_for_task_call ''task-1''])"
    by simp
  have b1: "p_state (params manager_delete_network) = absent" by code_simp
  have b2: "absent_lookup manager_delete_network = Inr (None, Some ''n1'')" by code_simp
  have b3: "\<not> check_mode manager_delete_network" by code_simp
  have b4: "p_folder_type (params manager_delete_network) \<noteq> vm" by code_simp
  have b5: "Destroy (content manager_delete_network) ''n1'' = Inr ''task-1''" by code_simp
  have b6: "wait_for_task (content manager_delete_network) ''task-1'' = Inr (True, ''done'')" by code_simp
  from delete_found_uses_task [of manager_delete_network None "''n1''"] b1 b2 b3 b4 b5 b6
  have b7: "ensure manager_delete_network =
     (exit_json \<lparr>changed = True, result = result_dict None None, msg = Some ''done''\<rparr>,
      [Destroy_call ''n1'', wait_for_task_call ''task-1''])"
    by simp
  from a1 a2 a3 a4 a5 a6 a7 b1 b2 b3 b4 b5 b6 b7 show ?thesis by blast
qed

lemma absent_lookup_moid:
  "py_str (p_parent_folder_moid (params self)) = Some moid \<Longrightarrow>
   attr_name (content self) moid = Inr p_name \<Longrightarrow>
   get_folder self (p_datacenter (params self)) (p_folder_name (params self))
     (p_folder_type (params self)) (Some moid) = Inr None \<Longrightarrow>
   absent_lookup self = Inr (Some p_name, None)"
  by (simp add: absent_lookup_def)

lemma absent_lookup_path:
  "py_str (p_parent_folder_moid (params self)) = None \<Longrightarrow>
   py_str (p_parent_folder (params self)) = Some pf \<Longrightarrow> CHR ''/'' \<in> set pf \<Longrightarrow>
   sequential_resolution self (split CHR ''/'' (strip CHR ''/'' pf)) = Inr anchor \<Longrightarrow>
   get_folder self (p_datacenter (params self)) (p_folder_name (params self))
     (p_folder_type (params self)) anchor = Inr None \<Longrightarrow>
   absent_lookup self = Inr (Some pf, None)"
  by (simp add: absent_lookup_def walk_parts_sequential)

lemma absent_lookup_name:
  "py_str (p_parent_folder_moid (params self)) = None \<Longrightarrow>
   py_str (p_parent_folder (params self)) = Some pf \<Longrightarrow> CHR ''/'' \<notin> set pf \<Longrightarrow>
   get_folder self (p_datacenter (params self)) pf (p_folder_type (params self)) None = Inr (Some p) \<Longrightarrow>
   get_folder self (p_datacenter (params self)) (p_folder_name (params self))
     (p_folder_type (params self)) (Some p) = Inr None \<Longrightarrow>
   absent_lookup self = Inr (Some pf, None)"
  by (simp add: absent_lookup_def)

lemma absent_lookup_top:
  "py_str (p_parent_folder_moid (params self)) = None \<Longrightarrow>
   py_str (p_parent_folder (params self)) = None \<Longrightarrow>
   get_folder self (p_datacenter (params self)) (p_folder_name (params self))
     (p_folder_type (params self)) None = Inr None \<Longrightarrow>
   absent_lookup self = Inr (p_parent_folder (params self), None)"
  by (simp add: absent_lookup_def)

text \<open>
  Claim C9. A run with state \<^verbatim>\<open>absent\<close> whose lookups resolved the parent, if any, and
  did not find the target ends in \<^verbatim>\<open>exit_json\<close> with \<^verbatim>\<open>changed\<close> false, and no call
  reaches the server, in check mode and outside of it. The lookups did so when
  \<open>absent_lookup\<close> hands over no folder, that is: the parent given by its id is there and
  the target is not found under it; or the segments of the parent path resolve and the
  target is not found under the last folder; or the parent given by one name is found and
  the target is not found under it; or no parent is given and the target is not found by
  its name alone.
\<close>

theorem delete_absent_is_noop:
  "p_state (params self) = absent \<and>
   (absent_lookup self = Inr (parent_folder, None) \<or>
    py_str (p_parent_folder_moid (params self)) = Some moid \<and>
      attr_name (content self) moid = Inr p_name \<and>
      get_folder self (p_datacenter (params self)) (p_folder_name (params self))
        (p_folder_type (params self)) (Some moid) = Inr None \<or>
    py_str (p_parent_folder_moid (params self)) = None \<and>
      py_str (p_parent_folder (params self)) = Some pf \<and> CHR ''/'' \<in> set pf \<and>
      sequential_resolution self (split CHR ''/'' (strip CHR ''/'' pf)) = Inr anchor \<and>
      get_folder self (p_datacenter (params self)) (p_folder_name (params self))
        (p_folder_type (params self)) anchor = Inr None \<or>
    py_str (p_parent_folder_moid (params self)) = None \<and>
      py_str (p_parent_folder (params self)) = Some pf \<and> CHR ''/'' \<notin> set pf \<and>
      get_folder self (p_datacenter (params self)) pf (p_folder_type (params self)) None
        = Inr (Some p) \<and>
      get_folder self (p_datacenter (params self)) (p_folder_name (params self))
        (p_folder_type (params self)) (Some p) = Inr None \<or>
    py_str (p_parent_folder_moid (params self)) = None \<and>
      py_str (p_parent_folder (params self)) = None \<and>
      get_folder self (p_datacenter (params self)) (p_folder_name (params self))
        (p_folder_type (params self)) None = Inr None) \<longrightarrow>
     ensure self = (exit_json \<lparr>changed = False, result = result_dict None None, msg = None\<rparr>, [])"
proof (intro impI, elim conjE)
  assume st: "p_state (params self) = absent"
  assume "absent_lookup self = Inr (parent_folder, None) \<or>
    py_str (p_parent_folder_moid (params self)) = Some moid \<and>
      attr_name (content self) moid = Inr p_name \<and>
      get_folder self (p_datacenter (params self)) (p_folder_name (params self))
        (p_folder_type (params self)) (Some moid) = Inr None \<or>
    py_str (p_parent_folder_moid (params self)) = None \<and>
      py_str (p_parent_folder (params self)) = Some pf \<and> CHR ''/'' \<in> set pf \<and>
      sequential_resolution self (split CHR ''/'' (strip CHR ''/'' pf)) = Inr anchor \<and>
      get_folder self (p_datacenter (params self)) (p_folder_name (params self))
        (p_folder_type (params self)) anchor = Inr None \<or>
    py_str (p_parent_folder_moid (params self)) = None \<and>
      py_str (p_parent_folder (params self)) = Some pf \<and> CHR ''/'' \<notin> set pf \<and>
      get_folder self (p_datacenter (params self)) pf (p_folder_type (params self)) None
        = Inr (Some p) \<and>
      get_folder self (p_datacenter (params self)) (p_folder_name (params self))
        (p_folder_type (params self)) (Some p) = Inr None \<or>
    py_str (p_parent_folder_moid (params self)) = None \<and>
      py_str (p_parent_folder (params self)) = None \<and>
      get_folder self (p_datacenter (params self)) (p_folder_name (params self))
        (p_folder_type (params self)) None = Inr None"
  then have "\<exists>v. absent_lookup self = Inr (v, None)"
    using absent_lookup_moid [of self moid p_name] absent_lookup_path [of self pf anchor]
      absent_lookup_name [of self pf p] absent_lookup_top [of self]
    by blast
  with st show "ensure self =
      (exit_json \<lparr>changed = False, result = result_dict None None, msg = None\<rparr>, [])"
    by (auto simp: ensure_def remove_folder_def results0_def)
qed

theorem delete_absent_is_noop_witness:
  "p_state (params manager_delete_missing) = absent \<and>
   py_str (p_parent_folder_moid (params manager_delete_missing)) = None \<and>
   py_str (p_parent_folder (params manager_delete_missing)) = Some ''Shared'' \<and>
   CHR ''/'' \<notin> set ''Shared'' \<and>
   get_folder manager_delete_missing ''DC0'' ''Shared'' network None = Inr (Some ''n1'') \<and>
   get_folder manager_delete_missing ''DC0'' ''Nope'' network (Some ''n1'') = Inr None \<and>
   absent_lookup manager_delete_missing = Inr (Some ''Shared'', None) \<and>
   ensure manager_delete_missing =
     (exit_json \<lparr>changed = False, result = result_dict None None, msg = None\<rparr>, [])"
proof -
  have a: "p_state (params manager_delete_missing) = absent"
    by code_simp
  have b: "py_str (p_parent_folder_moid (params manager_delete_missing)) = None"
    by code_simp
  have c: "py_str (p_parent_folder (params manager_delete_missing)) = Some ''Shared''"
    by code_simp
  have d: "CHR ''/'' \<notin> set ''Shared''"
    by simp
  have p: "p_datacenter (params manager_delete_missing) = ''DC0''"
    "p_folder_type (params manager_delete_missing) = network"
    "p_folder_name (params manager_delete_missing) = ''Nope''"
    by code_simp+
  have e: "get_folder manager_delete_missing ''DC0'' ''Shared'' network None = Inr (Some ''n1'')"
    by code_simp
  have f: "get_folder manager_delete_missing ''DC0'' ''Nope'' network (Some ''n1'') = Inr None"
    by code_simp
  have g: "absent_lookup manager_delete_missing = Inr (Some ''Shared'', None)"
    by code_simp
  from delete_absent_is_noop [of manager_delete_missing _ _ _ "''Shared''" _ "''n1''"] a b c d e f p
  have "ensure manager_delete_missing =
     (exit_json \<lparr>changed = False, result = result_dict None None, msg = None\<rparr>, [])"
    by simp
  with a b c d e f g show ?thesis by blast
qed

subsection \<open>The payload when the folder exists\<close>

text \<open>
  Claim C6 at a failing input. The folder \<^verbatim>\<open>tier2\<close> exists under the parent named
  \<^verbatim>\<open>tier1\<close>. Line 262 stores the path \<^verbatim>\<open>DC0/vm/tier1/tier2\<close> under
  \<^verbatim>\<open>results['result']['path']\<close>, and line 263 replaces \<^verbatim>\<open>results['result']\<close> by the
  message: the run ends with no path in its result. With no parent (lines 272 to 273) the
  result holds the path and the message.
\<close>

theorem present_found_named_parent_result:
  "ensure manager_found_by_name =
     (exit_json \<lparr>changed = False,
        result = result_str ''Folder tier2 already exists under parent folder tier1'',
        msg = None\<rparr>, []) \<and>
   get_folder manager_found_by_name ''DC0'' ''tier2'' vm (Some ''v2'') = Inr (Some ''v3'') \<and>
   get_folder_path (content manager_found_by_name) ''v3'' = ''DC0/vm/tier1/tier2'' \<and>
   ensure manager_found_top =
     (exit_json \<lparr>changed = False,
        result = result_dict (Some ''DC0/vm/tier1'') (Some ''Folder tier1 already exists''),
        msg = None\<rparr>, [])"
  by code_simp

text \<open>
  Claim C7 at a failing input. The folder \<^verbatim>\<open>tier3\<close> exists under the parent with the id
  \<^verbatim>\<open>v3\<close>: \<^verbatim>\<open>results['result']\<close> is a string, not a dictionary with the key \<^verbatim>\<open>msg\<close>.
  And a deletion stores its message under \<^verbatim>\<open>results['msg']\<close>, beside
  \<^verbatim>\<open>results['result']\<close> and not in it.
\<close>

theorem present_found_moid_parent_payload:
  "ensure manager_found_by_moid =
     (exit_json \<lparr>changed = False,
        result = result_str ''Folder tier3 already exists under parent folder tier2'',
        msg = None\<rparr>, []) \<and>
   ensure manager_delete_network =
     (exit_json \<lparr>changed = True, result = result_dict None None, msg = Some ''done''\<rparr>,
      [Destroy_call ''n1'', wait_for_task_call ''task-1''])"
  by code_simp

end
